theory Spec2Isabelle
  imports Main "HOL-Library.Word"
begin

section \<open>The G1 allocation-region core (g1AllocRegion.cpp)\<close>

text \<open>
  A shallow embedding of \<^verbatim>\<open>src/hotspot/share/gc/g1/g1AllocRegion.cpp\<close>: the base class
  \<^verbatim>\<open>G1AllocRegion\<close> and its two subclasses \<^verbatim>\<open>MutatorAllocRegion\<close> and
  \<^verbatim>\<open>G1GCAllocRegion\<close>.

  Conventions of the embedding.
  \<^item> A \<^verbatim>\<open>G1HeapRegion*\<close> is a reference into a store of regions; \<^verbatim>\<open>nullptr\<close> is \<open>None\<close>.
  \<^item> Every \<^verbatim>\<open>assert\<close> and \<^verbatim>\<open>assert_alloc_region\<close> of the source is a branch that returns
    \<open>Inl (Assert msg)\<close> with the source's message: the model is the checked (debug) build, in
    which a violated precondition stops the program.
  \<^item> A virtual member function that the base class calls (\<^verbatim>\<open>retire_region\<close>,
    \<^verbatim>\<open>allocate_new_region\<close>, \<^verbatim>\<open>retire\<close>) is a function argument of the base-class
    operation; each subclass passes its own override.
  \<^item> Other threads allocate out of a region while it is being retired. They enter
    \<^verbatim>\<open>fill_up_remaining_space\<close> as a schedule: for the k-th later access of the retiring
    thread to the region, the list of word sizes that other threads bump-allocate just
    before that access.
  \<^item> Sizes are natural numbers, in bytes or in words as in the source. \<^verbatim>\<open>_count\<close> is a
    32-bit word, and the addition to the \<^verbatim>\<open>size_t\<close> counter \<^verbatim>\<open>_wasted_bytes\<close> wraps at
    \<open>2 ^ 64\<close>. The other \<^verbatim>\<open>size_t\<close> arithmetic of the file cannot overflow: the result of
    \<^verbatim>\<open>fill_up_remaining_space\<close> is bounded by the free bytes of the region at entry, and the
    subtraction in \<^verbatim>\<open>G1GCAllocRegion::retire_region\<close> comes after the assertion that guards it.
  \<^item> Tracing (\<^verbatim>\<open>trace\<close>, \<^verbatim>\<open>log_debug\<close>) and the store-store barrier have no effect on the
    sequential state and are left out; so is the \<^verbatim>\<open>_name\<close> member, which only tracing reads.
\<close>

subsection \<open>Constants of the virtual machine\<close>

text \<open>
  \<^verbatim>\<open>HeapWordSize\<close> (bytes per heap word), \<^verbatim>\<open>CollectedHeap::min_fill_size()\<close> (words) and
  the flag \<^verbatim>\<open>MinTLABSize\<close> (bytes) are declared outside this file. They are parameters of
  the model.
\<close>

record globals =
  HeapWordSize :: nat
  min_fill_size :: nat
  MinTLABSize :: nat

subsection \<open>The region primitive\<close>

text \<open>
  Modelled from the spec: class \<^verbatim>\<open>G1HeapRegion\<close> is not part of the sources. The
  specification describes a region as a contiguous span with a base address, a capacity in
  words, a monotonically advancing allocation pointer, derived used and free bytes, an
  empty predicate (used = 0), an atomic bump-allocate that returns a pointer or fails when
  not enough space remains, a filler stamp over a span, and a pre-fill-top marker.
  Addresses count heap words; \<open>allocated\<close> is the distance in words between the base and
  the allocation pointer.
\<close>

type_synonym region_ref = nat

record G1HeapRegion =
  bottom :: nat
  capacity :: nat
  allocated :: nat
  pre_dummy_top :: "nat option"
  fillers :: "(nat \<times> nat) list"

text \<open>
  Modelled from the spec: \<^verbatim>\<open>G1HeapRegion::used\<close>, \<^verbatim>\<open>free\<close> and \<^verbatim>\<open>is_empty\<close>, in bytes.
\<close>

definition used :: "globals \<Rightarrow> G1HeapRegion \<Rightarrow> nat" where
  "used cfg hr = allocated hr * HeapWordSize cfg"

definition free :: "globals \<Rightarrow> G1HeapRegion \<Rightarrow> nat" where
  "free cfg hr = (capacity hr - allocated hr) * HeapWordSize cfg"

definition is_empty_region :: "globals \<Rightarrow> G1HeapRegion \<Rightarrow> bool" where
  "is_empty_region cfg hr = (used cfg hr = 0)"

text \<open>
  Modelled from the spec: \<^verbatim>\<open>G1HeapRegion::par_allocate\<close>, the atomic bump-allocation. It
  returns the old allocation pointer and advances it by \<open>word_size\<close> words when they fit,
  and returns \<^verbatim>\<open>nullptr\<close> and changes nothing when they do not.
\<close>

definition G1HeapRegion_par_allocate :: "G1HeapRegion \<Rightarrow> nat \<Rightarrow> nat option \<times> G1HeapRegion" where
  "G1HeapRegion_par_allocate hr word_size =
     (if word_size \<le> capacity hr - allocated hr
      then (Some (bottom hr + allocated hr), hr\<lparr>allocated := allocated hr + word_size\<rparr>)
      else (None, hr))"

text \<open>
  Modelled from the spec: \<^verbatim>\<open>G1HeapRegion::allocate\<close>, the bump allocation of the thread
  that owns the region. It differs from the atomic one only in how the pointer is written.
\<close>

definition G1HeapRegion_allocate :: "G1HeapRegion \<Rightarrow> nat \<Rightarrow> nat option \<times> G1HeapRegion" where
  "G1HeapRegion_allocate hr word_size = G1HeapRegion_par_allocate hr word_size"

text \<open>
  Modelled from the spec: \<^verbatim>\<open>fill_with_dummy_object\<close> stamps a span as filler, and
  \<^verbatim>\<open>set_pre_dummy_top\<close> and \<^verbatim>\<open>reset_pre_dummy_top\<close> write the pre-fill-top marker.
\<close>

definition fill_with_dummy_object :: "nat \<Rightarrow> nat \<Rightarrow> G1HeapRegion \<Rightarrow> G1HeapRegion" where
  "fill_with_dummy_object address word_size hr = hr\<lparr>fillers := (address, word_size) # fillers hr\<rparr>"

definition set_pre_dummy_top :: "nat \<Rightarrow> G1HeapRegion \<Rightarrow> G1HeapRegion" where
  "set_pre_dummy_top p hr = hr\<lparr>pre_dummy_top := Some p\<rparr>"

definition reset_pre_dummy_top :: "G1HeapRegion \<Rightarrow> G1HeapRegion" where
  "reset_pre_dummy_top hr = hr\<lparr>pre_dummy_top := None\<rparr>"

text \<open>
  The allocations of other threads out of one region, in the order in which their atomic
  bump-allocations take effect. A request that does not fit fails and changes nothing.
\<close>

fun concurrent_allocations :: "nat list \<Rightarrow> G1HeapRegion \<Rightarrow> G1HeapRegion" where
  "concurrent_allocations [] hr = hr"
| "concurrent_allocations (w # ws) hr =
     concurrent_allocations ws (snd (G1HeapRegion_par_allocate hr w))"

subsection \<open>The heap collaborator\<close>

text \<open>
  Modelled from the spec: \<^verbatim>\<open>G1CollectedHeap\<close> and \<^verbatim>\<open>G1EvacStats\<close> are not part of the
  sources. The heap accepts retired regions back together with a byte count (and, for a
  collection-time region, its purpose), and the statistics aggregator accepts end-of-life
  waste in words. The model records each such call, in order.
\<close>

datatype G1HeapRegionAttr = Young | Old

record G1CollectedHeap =
  retired_mutator_alloc_regions :: "(region_ref \<times> nat) list"
  retired_gc_alloc_regions :: "(region_ref \<times> nat \<times> G1HeapRegionAttr) list"
  region_end_waste :: "(nat \<times> nat) list"

text \<open>
  Modelled from the spec: \<^verbatim>\<open>G1CollectedHeap::retire_mutator_alloc_region\<close>,
  \<^verbatim>\<open>G1CollectedHeap::retire_gc_alloc_region\<close> and \<^verbatim>\<open>G1EvacStats::add_region_end_waste\<close>.
\<close>

definition retire_mutator_alloc_region :: "region_ref \<Rightarrow> nat \<Rightarrow> G1CollectedHeap \<Rightarrow> G1CollectedHeap" where
  "retire_mutator_alloc_region region allocated_bytes h =
     h\<lparr>retired_mutator_alloc_regions :=
         retired_mutator_alloc_regions h @ [(region, allocated_bytes)]\<rparr>"

definition retire_gc_alloc_region ::
  "region_ref \<Rightarrow> nat \<Rightarrow> G1HeapRegionAttr \<Rightarrow> G1CollectedHeap \<Rightarrow> G1CollectedHeap" where
  "retire_gc_alloc_region region allocated_bytes dest h =
     h\<lparr>retired_gc_alloc_regions :=
         retired_gc_alloc_regions h @ [(region, allocated_bytes, dest)]\<rparr>"

definition add_region_end_waste :: "nat \<Rightarrow> nat \<Rightarrow> G1CollectedHeap \<Rightarrow> G1CollectedHeap" where
  "add_region_end_waste stats_ref words h =
     h\<lparr>region_end_waste := region_end_waste h @ [(stats_ref, words)]\<rparr>"

subsection \<open>The state of a G1AllocRegion object\<close>

text \<open>
  The members \<^verbatim>\<open>_alloc_region\<close>, \<^verbatim>\<open>_count\<close> (a 32-bit \<^verbatim>\<open>uint\<close>) and \<^verbatim>\<open>_node_index\<close>,
  the static members \<^verbatim>\<open>_dummy_region\<close> and \<^verbatim>\<open>_g1h\<close> (the heap, held by value), and the
  store \<open>regions\<close> through which every region reference is read and written. The members
  that a subclass adds are the field \<open>derived\<close>.
\<close>

record 'x G1AllocRegion =
  regions :: "region_ref \<Rightarrow> G1HeapRegion option"
  g1h :: G1CollectedHeap
  dummy_region :: "region_ref option"
  alloc_region :: "region_ref option"
  count :: "32 word"
  node_index :: nat
  derived :: 'x

datatype error = Assert string | BadRegionRef

definition and_then :: "error + 'a \<Rightarrow> ('a \<Rightarrow> error + 'b) \<Rightarrow> error + 'b" where
  "and_then m f = (case m of Inl e \<Rightarrow> Inl e | Inr a \<Rightarrow> f a)"

definition region_at :: "'x G1AllocRegion \<Rightarrow> region_ref \<Rightarrow> error + G1HeapRegion" where
  "region_at s r = (case regions s r of None \<Rightarrow> Inl BadRegionRef | Some hr \<Rightarrow> Inr hr)"

definition store_region :: "region_ref \<Rightarrow> G1HeapRegion \<Rightarrow> 'x G1AllocRegion \<Rightarrow> 'x G1AllocRegion" where
  "store_region r hr s = s\<lparr>regions := (regions s)(r \<mapsto> hr)\<rparr>"

text \<open>
  A schedule gives, for each access of the retiring thread to the region, the word sizes
  that other threads request from the region just before it. The \<^verbatim>\<open>retire_region\<close> hook
  of a subclass reads the state and answers the new members of the subclass and the new
  heap: it hands the region to the heap and leaves the region store and the members of
  the base class alone.
\<close>

type_synonym schedule = "nat \<Rightarrow> nat list"

type_synonym 'x retire_region_hook =
  "region_ref \<Rightarrow> 'x G1AllocRegion \<Rightarrow> error + ('x \<times> G1CollectedHeap)"

subsection \<open>G1AllocRegion\<close>

text \<open>
  \<^verbatim>\<open>G1AllocRegion::setup\<close>. The heap pointer it stores is the field \<open>g1h\<close>, already part of
  the state.
\<close>

definition G1AllocRegion_setup ::
  "globals \<Rightarrow> region_ref option \<Rightarrow> 'x G1AllocRegion \<Rightarrow> error + 'x G1AllocRegion" where
  "G1AllocRegion_setup cfg dummy s =
     (if dummy_region s \<noteq> None then Inl (Assert ''should be set once'')
      else case dummy of
        None \<Rightarrow> Inl (Assert ''pre-condition'')
      | Some d \<Rightarrow>
          and_then (region_at s d) (\<lambda>hr.
            if free cfg hr \<noteq> 0 then Inl (Assert ''pre-condition'')
            else if fst (G1HeapRegion_par_allocate hr 1) \<noteq> None then Inl (Assert ''should fail'')
            else Inr (s\<lparr>dummy_region := Some d\<rparr>)))"

text \<open>
  The loop of \<^verbatim>\<open>fill_up_remaining_space\<close>. \<open>k\<close> counts the accesses of the retiring thread
  to the region after its first read of \<^verbatim>\<open>free()\<close>; \<open>sched k\<close> is what other threads
  allocate just before access \<open>k\<close>. One iteration is the maximal allocation attempt and,
  when it fails, the re-read of the free space.
\<close>

function (domintros) fill_up_loop ::
  "globals \<Rightarrow> schedule \<Rightarrow> nat \<Rightarrow> G1HeapRegion \<Rightarrow> nat \<Rightarrow> nat \<Rightarrow> nat \<times> nat \<times> G1HeapRegion"
where
  "fill_up_loop cfg sched k hr free_word_size result =
     (if free_word_size \<ge> min_fill_size cfg then
        (let hr1 = concurrent_allocations (sched k) hr;
             (dummy, hr2) = G1HeapRegion_par_allocate hr1 free_word_size
         in case dummy of
              Some d \<Rightarrow>
                (result + free_word_size * HeapWordSize cfg, k + 1,
                 set_pre_dummy_top d (fill_with_dummy_object d free_word_size hr2))
            | None \<Rightarrow>
                (let hr3 = concurrent_allocations (sched (k + 1)) hr2
                 in fill_up_loop cfg sched (k + 2) hr3
                      (free cfg hr3 div HeapWordSize cfg) result))
      else (result, k, hr))"
  by pat_completeness auto

lemma free_words_par_allocate:
  "capacity (snd (G1HeapRegion_par_allocate hr w)) - allocated (snd (G1HeapRegion_par_allocate hr w))
     \<le> capacity hr - allocated hr"
  by (auto simp: G1HeapRegion_par_allocate_def)

lemma free_words_concurrent:
  "capacity (concurrent_allocations ws hr) - allocated (concurrent_allocations ws hr)
     \<le> capacity hr - allocated hr"
proof (induction ws arbitrary: hr)
  case Nil
  show ?case by simp
next
  case (Cons w ws)
  from Cons [of "snd (G1HeapRegion_par_allocate hr w)"] free_words_par_allocate [of hr w]
  show ?case by simp
qed

lemma failed_attempt_decreases:
  assumes "G1HeapRegion_par_allocate hr1 free_word_size = (None, hr2)"
  shows "free cfg (concurrent_allocations ws hr2) div HeapWordSize cfg < free_word_size"
proof -
  from assms have less: "capacity hr1 - allocated hr1 < free_word_size" and same: "hr2 = hr1"
    by (auto simp: G1HeapRegion_par_allocate_def split: if_splits)
  have "free cfg (concurrent_allocations ws hr2) div HeapWordSize cfg
          \<le> capacity (concurrent_allocations ws hr2) - allocated (concurrent_allocations ws hr2)"
    by (cases "HeapWordSize cfg = 0") (simp_all add: free_def)
  also have "\<dots> \<le> capacity hr1 - allocated hr1"
    using free_words_concurrent [of ws hr1] same by simp
  finally show ?thesis using less by simp
qed

lemma fill_up_loop_total: "fill_up_loop_dom (cfg, sched, k, hr, free_word_size, result)"
proof (induction free_word_size arbitrary: k hr rule: less_induct)
  case (less free_word_size)
  show ?case
  proof (rule fill_up_loop.domintros)
    fix hr2 :: G1HeapRegion
    assume "(None, hr2) =
        G1HeapRegion_par_allocate (concurrent_allocations (sched k) hr) free_word_size"
    then have "free cfg (concurrent_allocations (sched (Suc k)) hr2) div HeapWordSize cfg
        < free_word_size"
      using failed_attempt_decreases
        [of "concurrent_allocations (sched k) hr" free_word_size hr2 cfg "sched (Suc k)"]
      by simp
    then show "fill_up_loop_dom (cfg, sched, Suc (Suc k), concurrent_allocations (sched (Suc k)) hr2,
        free cfg (concurrent_allocations (sched (Suc k)) hr2) div HeapWordSize cfg, result)"
      by (rule less.IH)
  qed
qed

termination fill_up_loop
  by (simp add: fill_up_loop_total)

declare fill_up_loop.simps [simp del]

text \<open>
  \<^verbatim>\<open>G1AllocRegion::fill_up_remaining_space\<close>. The argument is a reference the callers have
  already read through, so the \<^verbatim>\<open>nullptr\<close> half of the first assertion holds by type. The
  state returned is the state at the last access the function makes in every build, the
  read of \<^verbatim>\<open>free()\<close> that is added to the result; the closing assertion reads the free
  space of that state.
\<close>

definition fill_up_remaining_space ::
  "globals \<Rightarrow> schedule \<Rightarrow> region_ref \<Rightarrow> 'x G1AllocRegion \<Rightarrow> error + (nat \<times> 'x G1AllocRegion)" where
  "fill_up_remaining_space cfg sched region s =
     (if Some region = dummy_region s then Inl (Assert ''pre-condition'')
      else
        and_then (region_at s region) (\<lambda>hr.
          let free_word_size = free cfg hr div HeapWordSize cfg;
              min_word_size_to_fill = min_fill_size cfg;
              (result, k, hr1) = fill_up_loop cfg sched 0 hr free_word_size 0;
              hr2 = concurrent_allocations (sched k) hr1;
              result = result + free cfg hr2
          in if \<not> (free cfg hr2 div HeapWordSize cfg < min_word_size_to_fill)
             then Inl (Assert ''post-condition'')
             else Inr (result, store_region region hr2 s)))"

definition retire_internal ::
  "'x retire_region_hook \<Rightarrow> globals \<Rightarrow> schedule \<Rightarrow> region_ref \<Rightarrow> bool \<Rightarrow> 'x G1AllocRegion
     \<Rightarrow> error + (nat \<times> 'x G1AllocRegion)" where
  "retire_internal retire_region cfg sched region fill_up s =
     and_then (region_at s region) (\<lambda>hr.
       if is_empty_region cfg hr then Inl (Assert ''the alloc region should never be empty'')
       else
         and_then (if fill_up then fill_up_remaining_space cfg sched region s
                   else Inr (0, s)) (\<lambda>(waste, s1).
           and_then (retire_region region s1) (\<lambda>(d, h).
             Inr (waste, s1\<lparr>derived := d, g1h := h\<rparr>))))"

text \<open>
  Modelled from the spec: \<^verbatim>\<open>reset_alloc_region\<close>, \<^verbatim>\<open>get\<close>, \<^verbatim>\<open>par_allocate\<close> and
  \<^verbatim>\<open>attempt_allocation\<close> are inline members defined outside this file. Retirement "resets
  active back to dummy"; \<^verbatim>\<open>get\<close> answers the active region when it is real and
  \<^verbatim>\<open>nullptr\<close> when it is the dummy; the fast path is one atomic bump-allocation out of
  the active region and changes nothing else.
\<close>

definition reset_alloc_region :: "'x G1AllocRegion \<Rightarrow> 'x G1AllocRegion" where
  "reset_alloc_region s = s\<lparr>alloc_region := dummy_region s\<rparr>"

definition G1AllocRegion_get :: "'x G1AllocRegion \<Rightarrow> region_ref option" where
  "G1AllocRegion_get s = (if alloc_region s = dummy_region s then None else alloc_region s)"

definition par_allocate ::
  "region_ref \<Rightarrow> nat \<Rightarrow> 'x G1AllocRegion \<Rightarrow> error + (nat option \<times> 'x G1AllocRegion)" where
  "par_allocate r word_size s =
     and_then (region_at s r) (\<lambda>hr.
       let (result, hr1) = G1HeapRegion_par_allocate hr word_size
       in Inr (result, store_region r hr1 s))"

definition attempt_allocation ::
  "nat \<Rightarrow> 'x G1AllocRegion \<Rightarrow> error + (nat option \<times> 'x G1AllocRegion)" where
  "attempt_allocation word_size s =
     (case alloc_region s of
        None \<Rightarrow> Inl (Assert ''not initialized properly'')
      | Some r \<Rightarrow> par_allocate r word_size s)"

definition G1AllocRegion_retire ::
  "'x retire_region_hook \<Rightarrow> globals \<Rightarrow> schedule \<Rightarrow> bool \<Rightarrow> 'x G1AllocRegion
     \<Rightarrow> error + (nat \<times> 'x G1AllocRegion)" where
  "G1AllocRegion_retire retire_region cfg sched fill_up s =
     (case alloc_region s of
        None \<Rightarrow> Inl (Assert ''not initialized properly'')
      | Some r \<Rightarrow>
          if Some r \<noteq> dummy_region s then
            and_then (retire_internal retire_region cfg sched r fill_up s) (\<lambda>(waste, s1).
              Inr (waste, reset_alloc_region s1))
          else Inr (0, s))"

definition update_alloc_region ::
  "globals \<Rightarrow> region_ref option \<Rightarrow> 'x G1AllocRegion \<Rightarrow> error + 'x G1AllocRegion" where
  "update_alloc_region cfg new_region s =
     (case new_region of
        None \<Rightarrow> Inl (Assert ''pre-condition'')
      | Some r \<Rightarrow>
          and_then (region_at s r) (\<lambda>hr.
            if is_empty_region cfg hr then Inl (Assert ''pre-condition'')
            else Inr (s\<lparr>alloc_region := Some r, count := count s + 1\<rparr>)))"

text \<open>
  \<^verbatim>\<open>G1AllocRegion::new_alloc_region_and_allocate\<close>. The virtual \<^verbatim>\<open>allocate_new_region\<close>
  asks the heap, whose answer is outside this component: it is the argument
  \<open>allocate_new_region\<close>.
\<close>

definition new_alloc_region_and_allocate ::
  "(nat \<Rightarrow> 'x G1AllocRegion \<Rightarrow> region_ref option) \<Rightarrow> globals \<Rightarrow> nat \<Rightarrow> 'x G1AllocRegion
     \<Rightarrow> error + (nat option \<times> 'x G1AllocRegion)" where
  "new_alloc_region_and_allocate allocate_new_region cfg word_size s =
     (if alloc_region s \<noteq> dummy_region s then Inl (Assert ''pre-condition'')
      else case allocate_new_region word_size s of
        Some new_alloc_region \<Rightarrow>
          and_then (region_at s new_alloc_region) (\<lambda>hr.
            let hr1 = reset_pre_dummy_top hr
            in if \<not> is_empty_region cfg hr1 then Inl (Assert ''new regions should be empty'')
               else
                 (let (result, hr2) = G1HeapRegion_allocate hr1 word_size
                  in if result = None then Inl (Assert ''the allocation should succeeded'')
                     else
                       and_then (update_alloc_region cfg (Some new_alloc_region)
                                   (store_region new_alloc_region hr2 s)) (\<lambda>s1.
                         Inr (result, s1))))
      | None \<Rightarrow> Inr (None, s))"

definition G1AllocRegion_init :: "'x G1AllocRegion \<Rightarrow> error + 'x G1AllocRegion" where
  "G1AllocRegion_init s =
     (if alloc_region s \<noteq> None then Inl (Assert ''pre-condition'')
      else if dummy_region s = None then Inl (Assert ''should have been set'')
      else Inr (s\<lparr>alloc_region := dummy_region s, count := 0\<rparr>))"

definition G1AllocRegion_set ::
  "globals \<Rightarrow> region_ref option \<Rightarrow> 'x G1AllocRegion \<Rightarrow> error + 'x G1AllocRegion" where
  "G1AllocRegion_set cfg new_region s =
     (if \<not> (alloc_region s = dummy_region s \<and> count s = 0) then Inl (Assert ''pre-condition'')
      else update_alloc_region cfg new_region s)"

text \<open>
  \<^verbatim>\<open>G1AllocRegion::release\<close>. Its call of \<^verbatim>\<open>retire(false)\<close> is virtual: the argument
  \<open>retire\<close> is the override of the object's class.
\<close>

definition G1AllocRegion_release ::
  "(bool \<Rightarrow> 'x G1AllocRegion \<Rightarrow> error + (nat \<times> 'x G1AllocRegion)) \<Rightarrow> 'x G1AllocRegion
     \<Rightarrow> error + (region_ref option \<times> 'x G1AllocRegion)" where
  "G1AllocRegion_release retire s =
     (let released = alloc_region s
      in and_then (retire False s) (\<lambda>(waste, s1).
           if alloc_region s1 \<noteq> dummy_region s1 then Inl (Assert ''post-condition of retire()'')
           else Inr (if released = dummy_region s1 then None else released,
                     s1\<lparr>alloc_region := None\<rparr>)))"

subsection \<open>MutatorAllocRegion\<close>

record MutatorAllocRegion_members =
  retained_alloc_region :: "region_ref option"
  wasted_bytes :: nat

type_synonym MutatorAllocRegion = "MutatorAllocRegion_members G1AllocRegion"

text \<open>The answer of \<^verbatim>\<open>G1CollectedHeap::new_mutator_alloc_region\<close> is the argument \<open>heap_answer\<close>.\<close>

definition MutatorAllocRegion_allocate_new_region ::
  "(nat \<Rightarrow> nat \<Rightarrow> region_ref option) \<Rightarrow> nat \<Rightarrow> MutatorAllocRegion \<Rightarrow> region_ref option" where
  "MutatorAllocRegion_allocate_new_region heap_answer word_size s =
     heap_answer word_size (node_index s)"

definition MutatorAllocRegion_retire_region ::
  "globals \<Rightarrow> MutatorAllocRegion_members retire_region_hook" where
  "MutatorAllocRegion_retire_region cfg r s =
     and_then (region_at s r) (\<lambda>hr.
       Inr (derived s, retire_mutator_alloc_region r (used cfg hr) (g1h s)))"

definition MutatorAllocRegion_init :: "MutatorAllocRegion \<Rightarrow> error + MutatorAllocRegion" where
  "MutatorAllocRegion_init s =
     (if retained_alloc_region (derived s) \<noteq> None then Inl (Assert ''Pre-condition'')
      else and_then (G1AllocRegion_init s) (\<lambda>s1.
             Inr (s1\<lparr>derived := (derived s1)\<lparr>wasted_bytes := 0\<rparr>\<rparr>)))"

definition should_retain :: "globals \<Rightarrow> region_ref \<Rightarrow> MutatorAllocRegion \<Rightarrow> error + bool" where
  "should_retain cfg region s =
     and_then (region_at s region) (\<lambda>hr.
       let free_bytes = free cfg hr
       in if free_bytes < MinTLABSize cfg then Inr False
          else case retained_alloc_region (derived s) of
            None \<Rightarrow> Inr True
          | Some q \<Rightarrow>
              and_then (region_at s q) (\<lambda>qhr.
                if free_bytes < free cfg qhr then Inr False else Inr True))"

text \<open>The counter \<^verbatim>\<open>_wasted_bytes\<close> is a \<^verbatim>\<open>size_t\<close>: its addition wraps at \<open>2 ^ 64\<close>.\<close>

definition add_wasted_bytes :: "nat \<Rightarrow> MutatorAllocRegion \<Rightarrow> MutatorAllocRegion" where
  "add_wasted_bytes waste s =
     s\<lparr>derived := (derived s)\<lparr>wasted_bytes := (wasted_bytes (derived s) + waste) mod 2 ^ 64\<rparr>\<rparr>"

definition MutatorAllocRegion_retire ::
  "globals \<Rightarrow> schedule \<Rightarrow> bool \<Rightarrow> MutatorAllocRegion \<Rightarrow> error + (nat \<times> MutatorAllocRegion)" where
  "MutatorAllocRegion_retire cfg sched fill_up s =
     and_then
       (case G1AllocRegion_get s of
          Some current_region \<Rightarrow>
            and_then (should_retain cfg current_region s) (\<lambda>retain.
              if retain then
                and_then
                  (case retained_alloc_region (derived s) of
                     Some q \<Rightarrow> retire_internal (MutatorAllocRegion_retire_region cfg) cfg sched q True s
                   | None \<Rightarrow> Inr (0, s)) (\<lambda>(waste, s1).
                  Inr (waste, reset_alloc_region
                     (s1\<lparr>derived := (derived s1)\<lparr>retained_alloc_region := Some current_region\<rparr>\<rparr>)))
              else
                and_then (retire_internal (MutatorAllocRegion_retire_region cfg) cfg sched
                            current_region fill_up s) (\<lambda>(waste, s1).
                  Inr (waste, reset_alloc_region s1)))
        | None \<Rightarrow> Inr (0, s)) (\<lambda>(waste, s2).
       Inr (waste, add_wasted_bytes waste s2))"

definition used_in_alloc_regions :: "globals \<Rightarrow> MutatorAllocRegion \<Rightarrow> error + nat" where
  "used_in_alloc_regions cfg s =
     and_then (case G1AllocRegion_get s of
                 Some hr \<Rightarrow> and_then (region_at s hr) (\<lambda>r. Inr (used cfg r))
               | None \<Rightarrow> Inr 0) (\<lambda>used1.
       and_then (case retained_alloc_region (derived s) of
                   Some hr \<Rightarrow> and_then (region_at s hr) (\<lambda>r. Inr (used cfg r))
                 | None \<Rightarrow> Inr 0) (\<lambda>used2.
         Inr (used1 + used2)))"

definition MutatorAllocRegion_release ::
  "globals \<Rightarrow> schedule \<Rightarrow> MutatorAllocRegion \<Rightarrow> error + (region_ref option \<times> MutatorAllocRegion)" where
  "MutatorAllocRegion_release cfg sched s =
     and_then (G1AllocRegion_release (MutatorAllocRegion_retire cfg sched) s) (\<lambda>(ret, s1).
       and_then
         (case retained_alloc_region (derived s1) of
            Some q \<Rightarrow>
              and_then (retire_internal (MutatorAllocRegion_retire_region cfg) cfg sched q False s1)
                (\<lambda>(waste, s2).
                  Inr ((add_wasted_bytes waste s2)
                         \<lparr>derived := (derived (add_wasted_bytes waste s2))
                            \<lparr>retained_alloc_region := None\<rparr>\<rparr>))
          | None \<Rightarrow> Inr s1) (\<lambda>s3.
         Inr (ret, s3)))"

subsection \<open>G1GCAllocRegion\<close>

text \<open>\<open>stats\<close> is the reference \<^verbatim>\<open>_stats\<close> to the statistics aggregator of the purpose.\<close>

record G1GCAllocRegion_members =
  used_bytes_before :: nat
  purpose :: G1HeapRegionAttr
  stats :: nat

type_synonym G1GCAllocRegion = "G1GCAllocRegion_members G1AllocRegion"

text \<open>The answer of \<^verbatim>\<open>G1CollectedHeap::new_gc_alloc_region\<close> is the argument \<open>heap_answer\<close>.\<close>

definition G1GCAllocRegion_allocate_new_region ::
  "(nat \<Rightarrow> G1HeapRegionAttr \<Rightarrow> nat \<Rightarrow> region_ref option) \<Rightarrow> nat \<Rightarrow> G1GCAllocRegion
     \<Rightarrow> region_ref option" where
  "G1GCAllocRegion_allocate_new_region heap_answer word_size s =
     heap_answer word_size (purpose (derived s)) (node_index s)"

definition G1GCAllocRegion_retire_region ::
  "globals \<Rightarrow> G1GCAllocRegion_members retire_region_hook" where
  "G1GCAllocRegion_retire_region cfg r s =
     and_then (region_at s r) (\<lambda>hr.
       if \<not> (used cfg hr \<ge> used_bytes_before (derived s)) then Inl (Assert ''invariant'')
       else
         (let allocated_bytes = used cfg hr - used_bytes_before (derived s)
          in Inr ((derived s)\<lparr>used_bytes_before := 0\<rparr>,
                  retire_gc_alloc_region r allocated_bytes (purpose (derived s)) (g1h s))))"

definition G1GCAllocRegion_retire ::
  "globals \<Rightarrow> schedule \<Rightarrow> bool \<Rightarrow> G1GCAllocRegion \<Rightarrow> error + (nat \<times> G1GCAllocRegion)" where
  "G1GCAllocRegion_retire cfg sched fill_up s =
     (let retired = G1AllocRegion_get s
      in and_then (G1AllocRegion_retire (G1GCAllocRegion_retire_region cfg) cfg sched fill_up s)
           (\<lambda>(end_waste, s1).
             Inr (end_waste,
                  if retired \<noteq> None
                  then s1\<lparr>g1h := add_region_end_waste (stats (derived s1))
                                   (end_waste div HeapWordSize cfg) (g1h s1)\<rparr>
                  else s1)))"

definition reuse :: "globals \<Rightarrow> region_ref \<Rightarrow> G1GCAllocRegion \<Rightarrow> error + G1GCAllocRegion" where
  "reuse cfg r s =
     and_then (region_at s r) (\<lambda>hr.
       G1AllocRegion_set cfg (Some r)
         (s\<lparr>derived := (derived s)\<lparr>used_bytes_before := used cfg hr\<rparr>\<rparr>))"

subsection \<open>Sequences of calls\<close>

text \<open>
  Allocation requests that reach the fast path of one object, in the order in which their
  atomic bump-allocations take effect, with the span each successful one is granted
  (pointer and size in words).
\<close>

fun attempt_allocations ::
  "nat list \<Rightarrow> 'x G1AllocRegion \<Rightarrow> error + ((nat \<times> nat) list \<times> 'x G1AllocRegion)" where
  "attempt_allocations [] s = Inr ([], s)"
| "attempt_allocations (w # ws) s =
     and_then (attempt_allocation w s) (\<lambda>(result, s1).
       and_then (attempt_allocations ws s1) (\<lambda>(spans, s2).
         Inr ((case result of Some p \<Rightarrow> [(p, w)] | None \<Rightarrow> []) @ spans, s2)))"

text \<open>
  The operations of a \<^verbatim>\<open>G1AllocRegion\<close> as a caller sees them, here with the members of
  the base class, and the states an object can reach by the operations \<open>perform\<close> of its
  class: it is constructed with no active region; it changes by an operation that returns
  (one that violates an assertion has no next state); and the heap, which owns the regions,
  may write any region that is not the active one. The fast path and the schedule of a
  retirement are the only ways in which other threads reach the active region.
\<close>

datatype 'x operation =
    Op_setup "region_ref option"
  | Op_init
  | Op_set "region_ref option"
  | Op_new_alloc_region_and_allocate "nat \<Rightarrow> 'x G1AllocRegion \<Rightarrow> region_ref option" nat
  | Op_attempt_allocation nat
  | Op_retire schedule bool
  | Op_release schedule

fun apply_operation ::
  "globals \<Rightarrow> 'x retire_region_hook \<Rightarrow> 'x operation \<Rightarrow> 'x G1AllocRegion \<Rightarrow> error + 'x G1AllocRegion" where
  "apply_operation cfg retire_region (Op_setup dummy) s = G1AllocRegion_setup cfg dummy s"
| "apply_operation cfg retire_region Op_init s = G1AllocRegion_init s"
| "apply_operation cfg retire_region (Op_set new_region) s = G1AllocRegion_set cfg new_region s"
| "apply_operation cfg retire_region (Op_new_alloc_region_and_allocate allocate_new_region word_size) s =
     and_then (new_alloc_region_and_allocate allocate_new_region cfg word_size s) (\<lambda>(result, s1). Inr s1)"
| "apply_operation cfg retire_region (Op_attempt_allocation word_size) s =
     and_then (attempt_allocation word_size s) (\<lambda>(result, s1). Inr s1)"
| "apply_operation cfg retire_region (Op_retire sched fill_up) s =
     and_then (G1AllocRegion_retire retire_region cfg sched fill_up s) (\<lambda>(waste, s1). Inr s1)"
| "apply_operation cfg retire_region (Op_release sched) s =
     and_then (G1AllocRegion_release (G1AllocRegion_retire retire_region cfg sched) s)
       (\<lambda>(released, s1). Inr s1)"

text \<open>
  The same operations on an object of a subclass run the overrides of the subclass:
  \<^verbatim>\<open>MutatorAllocRegion\<close> overrides \<^verbatim>\<open>init\<close>, \<^verbatim>\<open>retire\<close> and \<^verbatim>\<open>release\<close>;
  \<^verbatim>\<open>G1GCAllocRegion\<close> overrides \<^verbatim>\<open>retire\<close> (which the inherited \<^verbatim>\<open>release\<close> then calls)
  and adds \<^verbatim>\<open>reuse\<close>.
\<close>

fun MutatorAllocRegion_apply ::
  "globals \<Rightarrow> MutatorAllocRegion_members operation \<Rightarrow> MutatorAllocRegion
     \<Rightarrow> error + MutatorAllocRegion" where
  "MutatorAllocRegion_apply cfg Op_init s = MutatorAllocRegion_init s"
| "MutatorAllocRegion_apply cfg (Op_retire sched fill_up) s =
     and_then (MutatorAllocRegion_retire cfg sched fill_up s) (\<lambda>(waste, s1). Inr s1)"
| "MutatorAllocRegion_apply cfg (Op_release sched) s =
     and_then (MutatorAllocRegion_release cfg sched s) (\<lambda>(released, s1). Inr s1)"
| "MutatorAllocRegion_apply cfg oper s =
     apply_operation cfg (MutatorAllocRegion_retire_region cfg) oper s"

datatype G1GCAllocRegion_operation =
    Op_inherited "G1GCAllocRegion_members operation"
  | Op_reuse region_ref

fun G1GCAllocRegion_apply ::
  "globals \<Rightarrow> G1GCAllocRegion_operation \<Rightarrow> G1GCAllocRegion \<Rightarrow> error + G1GCAllocRegion" where
  "G1GCAllocRegion_apply cfg (Op_reuse r) s = reuse cfg r s"
| "G1GCAllocRegion_apply cfg (Op_inherited (Op_retire sched fill_up)) s =
     and_then (G1GCAllocRegion_retire cfg sched fill_up s) (\<lambda>(waste, s1). Inr s1)"
| "G1GCAllocRegion_apply cfg (Op_inherited (Op_release sched)) s =
     and_then (G1AllocRegion_release (G1GCAllocRegion_retire cfg sched) s) (\<lambda>(released, s1). Inr s1)"
| "G1GCAllocRegion_apply cfg (Op_inherited oper) s =
     apply_operation cfg (G1GCAllocRegion_retire_region cfg) oper s"

inductive reachable ::
  "('op \<Rightarrow> 'x G1AllocRegion \<Rightarrow> error + 'x G1AllocRegion) \<Rightarrow> 'x G1AllocRegion \<Rightarrow> bool"
  for perform :: "'op \<Rightarrow> 'x G1AllocRegion \<Rightarrow> error + 'x G1AllocRegion" where
  constructed: "alloc_region s = None \<Longrightarrow> count s = 0 \<Longrightarrow> reachable perform s"
| operation: "reachable perform s \<Longrightarrow> perform oper s = Inr s' \<Longrightarrow> reachable perform s'"
| heap: "reachable perform s \<Longrightarrow> alloc_region s \<noteq> Some r
     \<Longrightarrow> reachable perform (s\<lparr>regions := (regions s)(r := v)\<rparr>)"

section \<open>Vocabulary of the properties\<close>

text \<open>
  The words a region has been stamped with as filler. The free words of a region as the
  source reads them, \<^verbatim>\<open>free() / HeapWordSize\<close>. The region as the other threads alone leave
  it: \<open>others_allocate sched n hr\<close> is \<open>hr\<close> after the allocations that the schedule places
  before the first \<open>n\<close> accesses of the retiring thread, and \<open>granted_to_others\<close> is the
  number of words they were granted by then. A region filled up: its free words allocated,
  stamped as one filler, and the pre-fill-top marker at the start of that filler. A real
  active region: the active region \<open>r\<close> is set, is not the dummy, holds \<open>hr\<close>, and is not
  empty. The addresses of a granted span. The invariant of the active region: when it is
  set and is not the dummy, it has used bytes.
\<close>

definition filler_words :: "G1HeapRegion \<Rightarrow> nat" where
  "filler_words hr = sum_list (map snd (fillers hr))"





definition real_active_region :: "globals \<Rightarrow> 'x G1AllocRegion \<Rightarrow> region_ref \<Rightarrow> G1HeapRegion \<Rightarrow> bool" where
  "real_active_region cfg s r hr \<longleftrightarrow>
     alloc_region s = Some r \<and> Some r \<noteq> dummy_region s \<and> regions s r = Some hr
     \<and> \<not> is_empty_region cfg hr"

definition span_set :: "nat \<times> nat \<Rightarrow> nat set" where
  "span_set sp = {fst sp ..< fst sp + snd sp}"

definition active_region_not_empty :: "globals \<Rightarrow> 'x G1AllocRegion \<Rightarrow> bool" where
  "active_region_not_empty cfg s =
     (case alloc_region s of
        None \<Rightarrow> True
      | Some r \<Rightarrow> Some r = dummy_region s
          \<or> (case regions s r of None \<Rightarrow> False | Some hr \<Rightarrow> 0 < used cfg hr))"

subsection \<open>Concrete inputs\<close>

text \<open>
  A word of 8 bytes, a fill threshold of 16 words, a minimum buffer of 2048 bytes; regions
  of 2048 words: one with 2000 words allocated, the same after another thread took 10
  more, an empty one, a full dummy, two with 512 words free each, one with 300 words free
  and one with 256 words free; allocator objects over them; schedules in which one other
  thread takes 10 words, or 20 words (a request of at least the fill threshold), just
  before the first maximal allocation attempt, and one in which no other thread allocates.
\<close>

definition example_cfg :: globals where
  "example_cfg = \<lparr>HeapWordSize = 8, min_fill_size = 16, MinTLABSize = 2048\<rparr>"

definition example_region :: G1HeapRegion where
  "example_region = \<lparr>bottom = 4096, capacity = 2048, allocated = 2000, pre_dummy_top = None, fillers = []\<rparr>"

definition example_dummy :: G1HeapRegion where
  "example_dummy = \<lparr>bottom = 0, capacity = 2048, allocated = 2048, pre_dummy_top = None, fillers = []\<rparr>"

definition example_heap :: G1CollectedHeap where
  "example_heap = \<lparr>retired_mutator_alloc_regions = [], retired_gc_alloc_regions = [], region_end_waste = []\<rparr>"

definition example_gc :: G1GCAllocRegion where
  "example_gc = \<lparr>regions = [0 \<mapsto> example_dummy, 2 \<mapsto> example_region], g1h = example_heap,
          dummy_region = Some 0, alloc_region = Some 2, count = 1, node_index = 0,
          derived = \<lparr>used_bytes_before = 0, purpose = Old, stats = 7\<rparr>\<rparr>"

definition example_race :: schedule where
  "example_race k = (if k = 0 then [10] else [])"

definition example_raced :: G1HeapRegion where
  "example_raced = example_region\<lparr>allocated := 2010\<rparr>"

definition example_fresh :: G1HeapRegion where
  "example_fresh = \<lparr>bottom = 8192, capacity = 2048, allocated = 0, pre_dummy_top = Some 9000, fillers = []\<rparr>"

definition example_idle :: G1GCAllocRegion where
  "example_idle = \<lparr>regions = [0 \<mapsto> example_dummy, 2 \<mapsto> example_region, 3 \<mapsto> example_fresh],
          g1h = example_heap, dummy_region = Some 0, alloc_region = Some 0, count = 0, node_index = 0,
          derived = \<lparr>used_bytes_before = 0, purpose = Old, stats = 7\<rparr>\<rparr>"

definition example_mutator :: MutatorAllocRegion where
  "example_mutator = \<lparr>regions = [0 \<mapsto> example_dummy, 2 \<mapsto> example_region], g1h = example_heap,
          dummy_region = Some 0, alloc_region = Some 2, count = 1, node_index = 0,
          derived = \<lparr>retained_alloc_region = None, wasted_bytes = 0\<rparr>\<rparr>"

definition example_half :: G1HeapRegion where
  "example_half = \<lparr>bottom = 16384, capacity = 2048, allocated = 1536, pre_dummy_top = None, fillers = []\<rparr>"

definition example_retained :: G1HeapRegion where
  "example_retained = \<lparr>bottom = 32768, capacity = 2048, allocated = 1536, pre_dummy_top = None, fillers = []\<rparr>"

definition example_tie :: MutatorAllocRegion where
  "example_tie = \<lparr>regions = [0 \<mapsto> example_dummy, 2 \<mapsto> example_half, 3 \<mapsto> example_retained],
          g1h = example_heap,
          dummy_region = Some 0, alloc_region = Some 2, count = 2, node_index = 0,
          derived = \<lparr>retained_alloc_region = Some 3, wasted_bytes = 0\<rparr>\<rparr>"

definition example_quiet :: schedule where
  "example_quiet k = []"

definition example_constructed :: G1GCAllocRegion where
  "example_constructed = \<lparr>regions = [0 \<mapsto> example_dummy, 3 \<mapsto> example_fresh],
          g1h = example_heap, dummy_region = None, alloc_region = None, count = 0, node_index = 0,
          derived = \<lparr>used_bytes_before = 0, purpose = Old, stats = 7\<rparr>\<rparr>"

definition example_active :: G1GCAllocRegion where
  "example_active = \<lparr>regions = [0 \<mapsto> example_dummy,
              3 \<mapsto> example_fresh\<lparr>pre_dummy_top := None, allocated := 2000\<rparr>],
          g1h = example_heap, dummy_region = Some 0, alloc_region = Some 3, count = 1, node_index = 0,
          derived = \<lparr>used_bytes_before = 0, purpose = Old, stats = 7\<rparr>\<rparr>"

definition example_mutator_constructed :: MutatorAllocRegion where
  "example_mutator_constructed = \<lparr>regions = [0 \<mapsto> example_dummy, 3 \<mapsto> example_fresh],
          g1h = example_heap, dummy_region = None, alloc_region = None, count = 0, node_index = 0,
          derived = \<lparr>retained_alloc_region = None, wasted_bytes = 0\<rparr>\<rparr>"

definition example_mutator_active :: MutatorAllocRegion where
  "example_mutator_active = \<lparr>regions = [0 \<mapsto> example_dummy,
              3 \<mapsto> example_fresh\<lparr>pre_dummy_top := None, allocated := 2000\<rparr>],
          g1h = example_heap, dummy_region = Some 0, alloc_region = Some 3, count = 1, node_index = 0,
          derived = \<lparr>retained_alloc_region = None, wasted_bytes = 0\<rparr>\<rparr>"

definition example_contended :: G1GCAllocRegion where
  "example_contended = example_gc\<lparr>regions := (regions example_gc)
       (2 \<mapsto> example_region\<lparr>allocated := 48\<rparr>)\<rparr>"


definition example_roomy :: G1HeapRegion where
  "example_roomy = \<lparr>bottom = 65536, capacity = 2048, allocated = 1748, pre_dummy_top = None, fillers = []\<rparr>"

definition example_retaining :: MutatorAllocRegion where
  "example_retaining = \<lparr>regions = [0 \<mapsto> example_dummy, 2 \<mapsto> example_roomy], g1h = example_heap,
          dummy_region = Some 0, alloc_region = Some 2, count = 1, node_index = 0,
          derived = \<lparr>retained_alloc_region = None, wasted_bytes = 0\<rparr>\<rparr>"

definition example_small :: G1HeapRegion where
  "example_small = \<lparr>bottom = 49152, capacity = 2048, allocated = 1792, pre_dummy_top = None, fillers = []\<rparr>"

definition example_displace :: MutatorAllocRegion where
  "example_displace = \<lparr>regions = [0 \<mapsto> example_dummy, 2 \<mapsto> example_half, 3 \<mapsto> example_small],
          g1h = example_heap,
          dummy_region = Some 0, alloc_region = Some 2, count = 2, node_index = 0,
          derived = \<lparr>retained_alloc_region = Some 3, wasted_bytes = 0\<rparr>\<rparr>"

lemmas example_defs = example_cfg_def example_region_def example_dummy_def example_heap_def
  example_gc_def example_race_def

lemmas eval_defs = G1AllocRegion_retire_def retire_internal_def and_then_def region_at_def
    is_empty_region_def used_def fill_up_remaining_space_def free_def G1HeapRegion_par_allocate_def
    store_region_def G1GCAllocRegion_retire_region_def reset_alloc_region_def Let_def
    set_pre_dummy_top_def fill_with_dummy_object_def fill_up_loop.simps retire_gc_alloc_region_def
    G1AllocRegion_release_def

lemmas mutator_eval_defs = MutatorAllocRegion_retire_def MutatorAllocRegion_release_def
  MutatorAllocRegion_init_def MutatorAllocRegion_retire_region_def should_retain_def
  add_wasted_bytes_def G1AllocRegion_get_def retire_mutator_alloc_region_def G1AllocRegion_init_def

section \<open>The region primitive and the fill-up loop\<close>

lemma par_allocate_frame:
  "capacity (snd (G1HeapRegion_par_allocate hr w)) = capacity hr"
  "bottom (snd (G1HeapRegion_par_allocate hr w)) = bottom hr"
  "fillers (snd (G1HeapRegion_par_allocate hr w)) = fillers hr"
  "pre_dummy_top (snd (G1HeapRegion_par_allocate hr w)) = pre_dummy_top hr"
  "allocated hr \<le> allocated (snd (G1HeapRegion_par_allocate hr w))"
  "allocated hr \<le> capacity hr \<Longrightarrow> allocated (snd (G1HeapRegion_par_allocate hr w)) \<le> capacity hr"
  by (auto simp: G1HeapRegion_par_allocate_def)

lemma concurrent_allocations_frame:
  "capacity (concurrent_allocations ws hr) = capacity hr"
  "bottom (concurrent_allocations ws hr) = bottom hr"
  "fillers (concurrent_allocations ws hr) = fillers hr"
  "pre_dummy_top (concurrent_allocations ws hr) = pre_dummy_top hr"
  by (induction ws arbitrary: hr) (simp_all add: par_allocate_frame)

lemma concurrent_allocations_mono:
  "allocated hr \<le> allocated (concurrent_allocations ws hr)"
proof (induction ws arbitrary: hr)
  case Nil
  show ?case by simp
next
  case (Cons w ws)
  from Cons [of "snd (G1HeapRegion_par_allocate hr w)"] par_allocate_frame(5) [of hr w]
  show ?case by simp
qed

lemma concurrent_allocations_bounded:
  "allocated hr \<le> capacity hr \<Longrightarrow> allocated (concurrent_allocations ws hr) \<le> capacity hr"
proof (induction ws arbitrary: hr)
  case Nil
  then show ?case by simp
next
  case (Cons w ws)
  from Cons.IH [of "snd (G1HeapRegion_par_allocate hr w)"] Cons.prems
    par_allocate_frame(6) [of hr w] par_allocate_frame(1) [of hr w]
  show ?case by simp
qed

lemma filler_words_concurrent [simp]:
  "filler_words (concurrent_allocations ws hr) = filler_words hr"
  by (simp add: filler_words_def concurrent_allocations_frame)

lemma fill_up_loop_exit:
  "\<not> min_fill_size cfg \<le> free_word_size \<Longrightarrow>
     fill_up_loop cfg sched k hr free_word_size result = (result, k, hr)"
  by (subst fill_up_loop.simps) simp

lemma fill_up_loop_success:
  assumes "min_fill_size cfg \<le> free_word_size"
    and "hr1 = concurrent_allocations (sched k) hr"
    and "free_word_size \<le> capacity hr1 - allocated hr1"
  shows "fill_up_loop cfg sched k hr free_word_size result =
     (result + free_word_size * HeapWordSize cfg, k + 1,
      set_pre_dummy_top (bottom hr1 + allocated hr1)
        (fill_with_dummy_object (bottom hr1 + allocated hr1) free_word_size
           (hr1\<lparr>allocated := allocated hr1 + free_word_size\<rparr>)))"
  using assms by (subst fill_up_loop.simps) (simp add: G1HeapRegion_par_allocate_def Let_def)

lemma fill_up_loop_failure:
  assumes "min_fill_size cfg \<le> free_word_size"
    and "hr1 = concurrent_allocations (sched k) hr"
    and "\<not> free_word_size \<le> capacity hr1 - allocated hr1"
    and "hr3 = concurrent_allocations (sched (k + 1)) hr1"
  shows "fill_up_loop cfg sched k hr free_word_size result =
     fill_up_loop cfg sched (k + 2) hr3 (free cfg hr3 div HeapWordSize cfg) result"
  using assms by (subst fill_up_loop.simps) (simp add: G1HeapRegion_par_allocate_def Let_def)

text \<open>What one run of the loop establishes, when it starts from a fresh read of the free words.\<close>

lemma fill_up_loop_spec:
  assumes "0 < HeapWordSize cfg"
    and "free_word_size = capacity hr - allocated hr"
    and "fill_up_loop cfg sched k hr free_word_size result = (res, k', hr')"
  shows "capacity hr' = capacity hr \<and> bottom hr' = bottom hr
    \<and> allocated hr \<le> allocated hr'
    \<and> (allocated hr \<le> capacity hr \<longrightarrow> allocated hr' \<le> capacity hr)
    \<and> filler_words hr \<le> filler_words hr'
    \<and> filler_words hr' - filler_words hr \<le> allocated hr' - allocated hr
    \<and> res = result + (filler_words hr' - filler_words hr) * HeapWordSize cfg
    \<and> (0 < min_fill_size cfg \<longrightarrow> capacity hr' - allocated hr' < min_fill_size cfg)
    \<and> k' \<le> k + 2 * (Suc free_word_size - min_fill_size cfg)"
  using assms
proof (induction cfg sched k hr free_word_size result rule: fill_up_loop.induct)
  case (1 cfg sched k hr free_word_size result)
  show ?case
  proof (cases "min_fill_size cfg \<le> free_word_size")
    case False
    with "1.prems" show ?thesis by (simp add: fill_up_loop_exit)
  next
    case enter: True
    define hr1 where "hr1 = concurrent_allocations (sched k) hr"
    have hr1: "capacity hr1 = capacity hr" "bottom hr1 = bottom hr" "allocated hr \<le> allocated hr1"
      "filler_words hr1 = filler_words hr" "fillers hr1 = fillers hr"
      by (simp_all add: hr1_def concurrent_allocations_frame concurrent_allocations_mono)
    have hr1_le: "allocated hr \<le> capacity hr \<Longrightarrow> allocated hr1 \<le> capacity hr"
      by (simp add: hr1_def concurrent_allocations_bounded)
    show ?thesis
    proof (cases "free_word_size \<le> capacity hr1 - allocated hr1")
      case success: True
      from "1.prems"(3) fill_up_loop_success [where sched = sched and k = k, OF enter hr1_def success, of result]
      have res: "res = result + free_word_size * HeapWordSize cfg"
        and k': "k' = k + 1"
        and hr': "hr' = set_pre_dummy_top (bottom hr1 + allocated hr1)
                   (fill_with_dummy_object (bottom hr1 + allocated hr1) free_word_size
                      (hr1\<lparr>allocated := allocated hr1 + free_word_size\<rparr>))"
        by simp_all
      have fw: "filler_words hr' = filler_words hr + free_word_size"
        by (simp add: hr' filler_words_def set_pre_dummy_top_def fill_with_dummy_object_def hr1)
      have al: "allocated hr' = allocated hr1 + free_word_size" "capacity hr' = capacity hr"
        "bottom hr' = bottom hr"
        by (simp_all add: hr' set_pre_dummy_top_def fill_with_dummy_object_def hr1)
      from success "1.prems"(2) hr1 have zero: "capacity hr - (allocated hr1 + free_word_size) = 0"
        by arith
      show ?thesis
        using fw al res k' hr1 hr1_le success enter zero by auto
    next
      case failure: False
      define hr3 where "hr3 = concurrent_allocations (sched (k + 1)) hr1"
      have hr3: "capacity hr3 = capacity hr" "bottom hr3 = bottom hr" "allocated hr1 \<le> allocated hr3"
        "filler_words hr3 = filler_words hr"
        by (simp_all add: hr3_def concurrent_allocations_frame concurrent_allocations_mono hr1)
      have hr3_le: "allocated hr \<le> capacity hr \<Longrightarrow> allocated hr3 \<le> capacity hr"
        using hr1_le concurrent_allocations_bounded [of hr1 "sched (k + 1)"] hr1 by (simp add: hr3_def)
      have fw3: "free cfg hr3 div HeapWordSize cfg = capacity hr3 - allocated hr3"
        using "1.prems"(1) by (simp add: free_def)
      have pa: "G1HeapRegion_par_allocate hr1 free_word_size = (None, hr1)"
        using failure by (simp add: G1HeapRegion_par_allocate_def)
      from "1.prems"(3) fill_up_loop_failure [where sched = sched and k = k, OF enter hr1_def failure hr3_def, of result]
      have rec: "fill_up_loop cfg sched (k + 2) hr3 (free cfg hr3 div HeapWordSize cfg) result = (res, k', hr')"
        by simp
      have IH: "capacity hr' = capacity hr3 \<and> bottom hr' = bottom hr3
        \<and> allocated hr3 \<le> allocated hr'
        \<and> (allocated hr3 \<le> capacity hr3 \<longrightarrow> allocated hr' \<le> capacity hr3)
        \<and> filler_words hr3 \<le> filler_words hr'
        \<and> filler_words hr' - filler_words hr3 \<le> allocated hr' - allocated hr3
        \<and> res = result + (filler_words hr' - filler_words hr3) * HeapWordSize cfg
        \<and> (0 < min_fill_size cfg \<longrightarrow> capacity hr' - allocated hr' < min_fill_size cfg)
        \<and> k' \<le> k + 2 + 2 * (Suc (free cfg hr3 div HeapWordSize cfg) - min_fill_size cfg)"
        by (rule "1.IH" [OF enter hr1_def refl _ refl hr3_def "1.prems"(1) fw3 rec])
           (simp add: pa)
      have less: "capacity hr3 - allocated hr3 < free_word_size"
        using failure hr3 hr1 by arith
      show ?thesis
        using IH hr3 hr3_le hr1 less enter fw3 by auto
    qed
  qed
qed

lemma free_div [simp]: "0 < HeapWordSize cfg \<Longrightarrow> free cfg hr div HeapWordSize cfg = capacity hr - allocated hr"
  by (simp add: free_def)

lemma fill_up_loop_quiet:
  assumes "0 < min_fill_size cfg" and "sched k = []"
    and "free_word_size = capacity hr - allocated hr"
    and "fill_up_loop cfg sched k hr free_word_size result = (res, k', hr')"
  shows "res + free cfg hr' = result + free cfg hr \<and> sched k' = [] \<or> k' = k + 1 \<and> res + free cfg hr' = result + free cfg hr"
proof (cases "min_fill_size cfg \<le> free_word_size")
  case False
  with assms show ?thesis by (simp add: fill_up_loop_exit)
next
  case True
  have hr1: "hr = concurrent_allocations (sched k) hr" using assms(2) by simp
  have fits: "free_word_size \<le> capacity hr - allocated hr" using assms(3) by simp
  from assms(4) fill_up_loop_success [where sched = sched and k = k, OF True hr1 fits, of result]
  have "res = result + free_word_size * HeapWordSize cfg" "k' = k + 1"
    "hr' = set_pre_dummy_top (bottom hr + allocated hr)
       (fill_with_dummy_object (bottom hr + allocated hr) free_word_size
          (hr\<lparr>allocated := allocated hr + free_word_size\<rparr>))"
    by simp_all
  then show ?thesis using assms(3)
    by (simp add: free_def set_pre_dummy_top_def fill_with_dummy_object_def)
qed

lemma fill_up_remaining_space_spec:
  assumes "0 < HeapWordSize cfg" and "0 < min_fill_size cfg"
    and "Some r \<noteq> dummy_region s" and "regions s r = Some hr"
  shows "\<exists>waste hr'. fill_up_remaining_space cfg sched r s = Inr (waste, store_region r hr' s)
     \<and> capacity hr' = capacity hr \<and> bottom hr' = bottom hr \<and> allocated hr \<le> allocated hr'
     \<and> free cfg hr' div HeapWordSize cfg < min_fill_size cfg
     \<and> waste = (filler_words hr' - filler_words hr) * HeapWordSize cfg + free cfg hr'
     \<and> ((\<forall>k. sched k = []) \<longrightarrow> waste = free cfg hr)"
proof -
  obtain res k' hr1 where loop:
    "fill_up_loop cfg sched 0 hr (capacity hr - allocated hr) 0 = (res, k', hr1)"
    by (cases "fill_up_loop cfg sched 0 hr (capacity hr - allocated hr) 0") auto
  from fill_up_loop_spec [OF assms(1) refl loop]
  have cap1: "capacity hr1 = capacity hr" and bot1: "bottom hr1 = bottom hr"
    and mono1: "allocated hr \<le> allocated hr1"
    and le1: "allocated hr \<le> capacity hr \<longrightarrow> allocated hr1 \<le> capacity hr"
    and fmono1: "filler_words hr \<le> filler_words hr1"
    and fle1: "filler_words hr1 - filler_words hr \<le> allocated hr1 - allocated hr"
    and res1: "res = (filler_words hr1 - filler_words hr) * HeapWordSize cfg"
    and post1: "capacity hr1 - allocated hr1 < min_fill_size cfg"
    using assms(2) by auto
  define hr2 where "hr2 = concurrent_allocations (sched k') hr1"
  have hr2: "capacity hr2 = capacity hr1" "bottom hr2 = bottom hr1" "allocated hr1 \<le> allocated hr2"
    "filler_words hr2 = filler_words hr1"
    by (simp_all add: hr2_def concurrent_allocations_frame concurrent_allocations_mono)
  have hr2_le: "allocated hr \<le> capacity hr \<Longrightarrow> allocated hr2 \<le> capacity hr"
    using le1 cap1 concurrent_allocations_bounded [of hr1 "sched k'"] by (simp add: hr2_def)
  have post: "capacity hr2 - allocated hr2 < min_fill_size cfg"
    using post1 hr2(1,3) by arith
  have run: "fill_up_remaining_space cfg sched r s =
      Inr (res + free cfg hr2, store_region r hr2 s)"
    using assms loop post
    by (simp add: fill_up_remaining_space_def and_then_def region_at_def Let_def hr2_def)
  have res: "res = (filler_words hr2 - filler_words hr) * HeapWordSize cfg"
    using res1 hr2(4) by simp
  have quiet: "res + free cfg hr2 = free cfg hr" if q: "\<forall>k. sched k = []"
  proof -
    from q have "sched 0 = []" "sched k' = []" by simp_all
    with fill_up_loop_quiet [OF assms(2) _ refl loop] have "res + free cfg hr1 = free cfg hr"
      by auto
    moreover have "hr2 = hr1" using \<open>sched k' = []\<close> by (simp add: hr2_def)
    ultimately show ?thesis by simp
  qed
  have geom: "capacity hr2 = capacity hr" "bottom hr2 = bottom hr" "allocated hr \<le> allocated hr2"
    using cap1 bot1 mono1 hr2 by simp_all
  have post': "free cfg hr2 div HeapWordSize cfg < min_fill_size cfg"
    using post assms(1) by simp
  have waste: "res + free cfg hr2 = (filler_words hr2 - filler_words hr) * HeapWordSize cfg + free cfg hr2"
    using res by simp
  show ?thesis
    using run geom post' waste quiet by blast
qed

lemma fill_up_loop_accesses:
  "fst (snd (fill_up_loop cfg sched k hr free_word_size result))
     \<le> k + 2 * (Suc free_word_size - min_fill_size cfg)"
proof (induction free_word_size arbitrary: k hr rule: less_induct)
  case (less free_word_size)
  show ?case
  proof (cases "min_fill_size cfg \<le> free_word_size")
    case False
    then show ?thesis by (simp add: fill_up_loop_exit)
  next
    case enter: True
    define hr1 where "hr1 = concurrent_allocations (sched k) hr"
    show ?thesis
    proof (cases "free_word_size \<le> capacity hr1 - allocated hr1")
      case True
      from fill_up_loop_success [where sched = sched and k = k, OF enter hr1_def True, of result]
      show ?thesis using enter by simp
    next
      case False
      define hr3 where "hr3 = concurrent_allocations (sched (k + 1)) hr1"
      have "G1HeapRegion_par_allocate hr1 free_word_size = (None, hr1)"
        using False by (simp add: G1HeapRegion_par_allocate_def)
      then have smaller: "free cfg hr3 div HeapWordSize cfg < free_word_size"
        unfolding hr3_def by (rule failed_attempt_decreases)
      from less.IH [OF smaller, of "k + 2" hr3]
      have "fst (snd (fill_up_loop cfg sched (k + 2) hr3 (free cfg hr3 div HeapWordSize cfg) result))
        \<le> k + 2 + 2 * (Suc (free cfg hr3 div HeapWordSize cfg) - min_fill_size cfg)" .
      also have "\<dots> \<le> k + 2 * (Suc free_word_size - min_fill_size cfg)"
        using smaller enter by arith
      finally show ?thesis
        using fill_up_loop_failure [where sched = sched and k = k, OF enter hr1_def False hr3_def, of result]
        by simp
    qed
  qed
qed

lemma store_region_simps [simp]:
  "regions (store_region r hr s) = (regions s)(r \<mapsto> hr)"
  "dummy_region (store_region r hr s) = dummy_region s"
  "alloc_region (store_region r hr s) = alloc_region s"
  "count (store_region r hr s) = count s"
  "derived (store_region r hr s) = derived s"
  "g1h (store_region r hr s) = g1h s"
  "node_index (store_region r hr s) = node_index s"
  by (simp_all add: store_region_def)

section \<open>Termination of the fill-up loop\<close>

text \<open>
  Claim C9. The loop of \<^verbatim>\<open>fill_up_remaining_space\<close> ends in every execution, whatever the
  other threads allocate and whenever they do. Three facts, for every schedule: the call
  graph of the loop is well founded at every input (\<open>fill_up_loop_dom\<close> is the accessible
  part of the relation between an iteration and the next); a failed maximal allocation
  attempt is followed by a strictly smaller re-read free word count, however much others
  allocate in between; the loop reaches the region at most twice for each value between
  the threshold and the first free word count; and, for a word size and a threshold
  that are positive, \<^verbatim>\<open>fill_up_remaining_space\<close> returns on every region but the dummy.
\<close>

theorem fill_up_loop_terminates:
  "fill_up_loop_dom (cfg, sched, k, hr, free_word_size, result)
   \<and> (G1HeapRegion_par_allocate hr1 free_word_size = (None, hr2) \<longrightarrow>
        free cfg (concurrent_allocations ws hr2) div HeapWordSize cfg < free_word_size)
   \<and> fst (snd (fill_up_loop cfg sched k hr free_word_size result))
        \<le> k + 2 * (Suc free_word_size - min_fill_size cfg)
   \<and> (0 < HeapWordSize cfg \<and> 0 < min_fill_size cfg \<and> Some r \<noteq> dummy_region s
        \<and> regions s r = Some hr0 \<longrightarrow>
        (\<exists>waste s'. fill_up_remaining_space cfg sched r s = Inr (waste, s')))"
proof -
  have "\<exists>waste s'. fill_up_remaining_space cfg sched r s = Inr (waste, s')"
    if "0 < HeapWordSize cfg" "0 < min_fill_size cfg" "Some r \<noteq> dummy_region s"
      "regions s r = Some hr0"
    using fill_up_remaining_space_spec [OF that, of sched] by blast
  with fill_up_loop_total [of cfg sched k hr free_word_size result]
    failed_attempt_decreases [of hr1 free_word_size hr2 cfg ws]
    fill_up_loop_accesses [of cfg sched k hr free_word_size result]
  show ?thesis by blast
qed

theorem fill_up_loop_terminates_witness:
  "fill_up_loop_dom (example_cfg, example_race, 0, example_region, 48, 0)
   \<and> G1HeapRegion_par_allocate example_raced 48 = (None, example_raced)
   \<and> free example_cfg (concurrent_allocations [] example_raced) div HeapWordSize example_cfg < 48
   \<and> fill_up_loop example_cfg example_race 0 example_region 48 0
        = (304, 3, example_region\<lparr>allocated := 2048, pre_dummy_top := Some 6106, fillers := [(6106, 38)]\<rparr>)
   \<and> fst (snd (fill_up_loop example_cfg example_race 0 example_region 48 0))
        \<le> 0 + 2 * (Suc 48 - min_fill_size example_cfg)
   \<and> 0 < HeapWordSize example_cfg \<and> 0 < min_fill_size example_cfg
   \<and> Some 2 \<noteq> dummy_region example_gc \<and> regions example_gc 2 = Some example_region
   \<and> (\<exists>waste s'. fill_up_remaining_space example_cfg example_race 2 example_gc = Inr (waste, s'))"
proof -
  have fail: "G1HeapRegion_par_allocate example_raced 48 = (None, example_raced)"
    by (simp add: G1HeapRegion_par_allocate_def example_raced_def example_defs)
  have run: "fill_up_loop example_cfg example_race 0 example_region 48 0
        = (304, 3, example_region\<lparr>allocated := 2048, pre_dummy_top := Some 6106, fillers := [(6106, 38)]\<rparr>)"
    by (simp add: fill_up_loop.simps example_defs G1HeapRegion_par_allocate_def free_def
        set_pre_dummy_top_def fill_with_dummy_object_def)
  have h: "0 < HeapWordSize example_cfg" "0 < min_fill_size example_cfg"
    "Some 2 \<noteq> dummy_region example_gc" "regions example_gc 2 = Some example_region"
    by (simp_all add: example_defs)
  from fill_up_loop_terminates [of example_cfg example_race 0 example_region 48 0 example_raced
      example_raced "[]" 2 example_gc example_region]
  show ?thesis using fail run h by simp
qed

section \<open>Acquiring a new region\<close>

text \<open>
  Claim C4. Let the active region be the dummy. When the heap supplies no region,
  \<^verbatim>\<open>new_alloc_region_and_allocate\<close> returns \<^verbatim>\<open>nullptr\<close> and changes nothing. When the heap
  supplies an empty region of at least \<open>word_size\<close> words, for a request of at least one
  word, the first allocation on the region succeeds at its bottom; the call is
  \<^verbatim>\<open>update_alloc_region\<close> applied to the state that already holds that allocation; and it
  returns the pointer with the region published as active and the count one higher (in the
  32-bit arithmetic of \<^verbatim>\<open>_count\<close>). The size conditions are what the two assertions of the
  function, and the one of \<^verbatim>\<open>update_alloc_region\<close>, demand of the heap and of the caller.
\<close>

theorem new_alloc_region_and_allocate_spec:
  assumes "alloc_region s = dummy_region s"
  shows "(allocate_new_region word_size s = None \<longrightarrow>
            new_alloc_region_and_allocate allocate_new_region cfg word_size s = Inr (None, s))
    \<and> (allocate_new_region word_size s = Some r \<and> regions s r = Some hr
         \<and> is_empty_region cfg hr \<and> 0 < HeapWordSize cfg
         \<and> 0 < word_size \<and> word_size \<le> capacity hr \<longrightarrow>
         G1HeapRegion_allocate (reset_pre_dummy_top hr) word_size =
           (Some (bottom hr), hr\<lparr>pre_dummy_top := None, allocated := word_size\<rparr>)
       \<and> new_alloc_region_and_allocate allocate_new_region cfg word_size s =
           and_then (update_alloc_region cfg (Some r)
                       (store_region r (hr\<lparr>pre_dummy_top := None, allocated := word_size\<rparr>) s))
             (\<lambda>s1. Inr (Some (bottom hr), s1))
       \<and> new_alloc_region_and_allocate allocate_new_region cfg word_size s =
           Inr (Some (bottom hr),
                s\<lparr>regions := (regions s)(r \<mapsto> hr\<lparr>pre_dummy_top := None, allocated := word_size\<rparr>),
                  alloc_region := Some r, count := count s + 1\<rparr>))"
proof (intro conjI impI)
  assume "allocate_new_region word_size s = None"
  with assms show "new_alloc_region_and_allocate allocate_new_region cfg word_size s = Inr (None, s)"
    by (simp add: new_alloc_region_and_allocate_def)
next
  assume a: "allocate_new_region word_size s = Some r \<and> regions s r = Some hr
         \<and> is_empty_region cfg hr \<and> 0 < HeapWordSize cfg
         \<and> 0 < word_size \<and> word_size \<le> capacity hr"
  then have empty: "allocated hr = 0"
    by (auto simp: is_empty_region_def used_def)
  with a show alloc: "G1HeapRegion_allocate (reset_pre_dummy_top hr) word_size =
           (Some (bottom hr), hr\<lparr>pre_dummy_top := None, allocated := word_size\<rparr>)"
    by (simp add: G1HeapRegion_allocate_def G1HeapRegion_par_allocate_def reset_pre_dummy_top_def)
  from a assms alloc empty
  show run: "new_alloc_region_and_allocate allocate_new_region cfg word_size s =
           and_then (update_alloc_region cfg (Some r)
                       (store_region r (hr\<lparr>pre_dummy_top := None, allocated := word_size\<rparr>) s))
             (\<lambda>s1. Inr (Some (bottom hr), s1))"
    by (simp add: new_alloc_region_and_allocate_def and_then_def region_at_def
        is_empty_region_def used_def reset_pre_dummy_top_def)
  from a show "new_alloc_region_and_allocate allocate_new_region cfg word_size s =
           Inr (Some (bottom hr),
                s\<lparr>regions := (regions s)(r \<mapsto> hr\<lparr>pre_dummy_top := None, allocated := word_size\<rparr>),
                  alloc_region := Some r, count := count s + 1\<rparr>)"
    by (simp add: run update_alloc_region_def and_then_def region_at_def is_empty_region_def
        used_def store_region_def)
qed

theorem new_alloc_region_and_allocate_spec_witness:
  "alloc_region example_idle = dummy_region example_idle
   \<and> new_alloc_region_and_allocate (\<lambda>word_size s. None) example_cfg 2000 example_idle
        = Inr (None, example_idle)
   \<and> regions example_idle 3 = Some example_fresh \<and> is_empty_region example_cfg example_fresh
   \<and> 0 < HeapWordSize example_cfg \<and> (0::nat) < 2000 \<and> 2000 \<le> capacity example_fresh
   \<and> new_alloc_region_and_allocate (\<lambda>word_size s. Some 3) example_cfg 2000 example_idle
        = Inr (Some 8192,
               example_idle\<lparr>regions := (regions example_idle)
                   (3 \<mapsto> example_fresh\<lparr>pre_dummy_top := None, allocated := 2000\<rparr>),
                 alloc_region := Some 3, count := 1\<rparr>)"
proof -
  have idle: "alloc_region example_idle = dummy_region example_idle"
    by (simp add: example_idle_def)
  have h: "regions example_idle 3 = Some example_fresh" "is_empty_region example_cfg example_fresh"
    "0 < HeapWordSize example_cfg" "(0::nat) < 2000" "2000 \<le> capacity example_fresh"
    "bottom example_fresh = 8192" "count example_idle = 0"
    by (simp_all add: example_idle_def example_fresh_def example_defs is_empty_region_def used_def)
  from new_alloc_region_and_allocate_spec [OF idle, where allocate_new_region = "\<lambda>word_size s. None"
      and word_size = 2000 and cfg = example_cfg]
  have none: "new_alloc_region_and_allocate (\<lambda>word_size s. None) example_cfg 2000 example_idle
        = Inr (None, example_idle)"
    by simp
  from new_alloc_region_and_allocate_spec [OF idle, where allocate_new_region = "\<lambda>word_size s. Some 3"
      and word_size = 2000 and r = 3 and hr = example_fresh and cfg = example_cfg] h
  have some: "new_alloc_region_and_allocate (\<lambda>word_size s. Some 3) example_cfg 2000 example_idle
        = Inr (Some 8192,
               example_idle\<lparr>regions := (regions example_idle)
                   (3 \<mapsto> example_fresh\<lparr>pre_dummy_top := None, allocated := 2000\<rparr>),
                 alloc_region := Some 3, count := 1\<rparr>)"
    by auto
  from idle h none some show ?thesis by simp
qed

text \<open>A request of zero words leaves the new region empty and stops at the assertion of
  \<^verbatim>\<open>update_alloc_region\<close>.\<close>

lemma new_alloc_region_and_allocate_zero_words:
  "new_alloc_region_and_allocate (\<lambda>word_size s. Some 3) example_cfg 0 example_idle
     = Inl (Assert ''pre-condition'')"
  by (simp add: new_alloc_region_and_allocate_def example_idle_def example_fresh_def example_defs
      and_then_def region_at_def is_empty_region_def used_def reset_pre_dummy_top_def
      G1HeapRegion_allocate_def G1HeapRegion_par_allocate_def update_alloc_region_def store_region_def)

section \<open>What retirement leaves unchanged\<close>

lemma fill_up_remaining_space_frame:
  assumes "fill_up_remaining_space cfg sched r s = Inr (waste, s1)"
  shows "\<exists>hr'. s1 = store_region r hr' s"
  using assms
  by (auto simp: fill_up_remaining_space_def and_then_def region_at_def Let_def
      split: if_splits option.splits prod.splits)

lemma retire_internal_frame:
  assumes "retire_internal retire_region cfg sched r fill_up s = Inr (waste, s1)"
  shows "\<exists>hr' d h. s1 = (store_region r hr' s)\<lparr>derived := d, g1h := h\<rparr>
           \<and> regions s r \<noteq> None
           \<and> retire_region r (if fill_up then store_region r hr' s else s) = Inr (d, h)
           \<and> (\<not> fill_up \<longrightarrow> regions s r = Some hr')"
proof -
  from assms obtain hr where hr: "regions s r = Some hr"
    by (auto simp: retire_internal_def and_then_def region_at_def split: option.splits)
  show ?thesis
  proof (cases fill_up)
    case True
    with assms hr obtain w s0 d h where f: "fill_up_remaining_space cfg sched r s = Inr (w, s0)"
      and rr: "retire_region r s0 = Inr (d, h)" and s1: "s1 = s0\<lparr>derived := d, g1h := h\<rparr>"
      by (auto simp: retire_internal_def and_then_def region_at_def
          split: if_splits sum.splits prod.splits)
    from fill_up_remaining_space_frame [OF f] obtain hr' where "s0 = store_region r hr' s" ..
    with rr s1 hr True show ?thesis by auto
  next
    case False
    with assms hr obtain d h where rr: "retire_region r s = Inr (d, h)"
      and s1: "s1 = s\<lparr>derived := d, g1h := h\<rparr>"
      by (auto simp: retire_internal_def and_then_def region_at_def
          split: if_splits sum.splits prod.splits)
    have "store_region r hr s = s"
      using hr by (simp add: store_region_def fun_upd_idem)
    with rr s1 hr False show ?thesis by (intro exI [of _ hr] exI [of _ d] exI [of _ h]) simp
  qed
qed

lemma G1AllocRegion_retire_frame:
  assumes "G1AllocRegion_retire retire_region cfg sched fill_up s = Inr (waste, s1)"
  shows "alloc_region s \<noteq> None \<and> dummy_region s1 = dummy_region s
     \<and> alloc_region s1 = dummy_region s \<and> count s1 = count s \<and> node_index s1 = node_index s"
proof -
  from assms obtain a where a: "alloc_region s = Some a"
    by (auto simp: G1AllocRegion_retire_def split: option.splits)
  show ?thesis
  proof (cases "Some a = dummy_region s")
    case True
    then have "dummy_region s = Some a" by simp
    with assms a show ?thesis by (auto simp: G1AllocRegion_retire_def)
  next
    case False
    with assms a obtain s0 where ri: "retire_internal retire_region cfg sched a fill_up s = Inr (waste, s0)"
      and s1: "s1 = reset_alloc_region s0"
      by (auto simp: G1AllocRegion_retire_def and_then_def split: sum.splits)
    from retire_internal_frame [OF ri] obtain hr' d h where
      "s0 = (store_region a hr' s)\<lparr>derived := d, g1h := h\<rparr>" by blast
    with s1 a show ?thesis by (simp add: reset_alloc_region_def)
  qed
qed

section \<open>Releasing twice\<close>




section \<open>Accounting of the collection-time allocator\<close>

lemma G1GCAllocRegion_retire_region_result:
  assumes "G1GCAllocRegion_retire_region cfg r s = Inr (d, h)"
  shows "stats d = stats (derived s) \<and> purpose d = purpose (derived s) \<and> used_bytes_before d = 0
     \<and> region_end_waste h = region_end_waste (g1h s)"
  using assms
  by (auto simp: G1GCAllocRegion_retire_region_def and_then_def region_at_def Let_def
      retire_gc_alloc_region_def split: option.splits if_splits)

lemma G1GCAllocRegion_base_retire_frame:
  assumes "G1AllocRegion_retire (G1GCAllocRegion_retire_region cfg) cfg sched fill_up s = Inr (w, s1)"
  shows "stats (derived s1) = stats (derived s) \<and> region_end_waste (g1h s1) = region_end_waste (g1h s)"
proof -
  from assms obtain a where a: "alloc_region s = Some a"
    by (auto simp: G1AllocRegion_retire_def split: option.splits)
  show ?thesis
  proof (cases "Some a = dummy_region s")
    case True
    then have "dummy_region s = Some a" by simp
    with assms a show ?thesis by (auto simp: G1AllocRegion_retire_def)
  next
    case False
    with assms a obtain s0 where
      ri: "retire_internal (G1GCAllocRegion_retire_region cfg) cfg sched a fill_up s = Inr (w, s0)"
      and s1: "s1 = reset_alloc_region s0"
      by (auto simp: G1AllocRegion_retire_def and_then_def split: sum.splits)
    from retire_internal_frame [OF ri] obtain hr' d h where
      s0: "s0 = (store_region a hr' s)\<lparr>derived := d, g1h := h\<rparr>"
      and rr: "G1GCAllocRegion_retire_region cfg a (if fill_up then store_region a hr' s else s) = Inr (d, h)"
      by blast
    from G1GCAllocRegion_retire_region_result [OF rr]
    show ?thesis by (simp add: s1 s0 reset_alloc_region_def split: if_splits)
  qed
qed

text \<open>
  Claim C7. When the region has used at least \<^verbatim>\<open>_used_bytes_before\<close> bytes, the
  \<^verbatim>\<open>retire_region\<close> hook of \<^verbatim>\<open>G1GCAllocRegion\<close> hands the heap the region, the difference
  and the purpose of the object, and clears the snapshot. When \<^verbatim>\<open>G1GCAllocRegion::retire\<close>
  returns, its waste is the waste of the base retirement, and it has reported that waste in
  words to the statistics of the object exactly when the active region was not the dummy
  before. For a real, non-empty active region within the snapshot it does return.
\<close>

theorem G1GCAllocRegion_retire_reports:
  "(regions s r = Some hr \<and> used_bytes_before (derived s) \<le> used cfg hr \<longrightarrow>
      G1GCAllocRegion_retire_region cfg r s =
        Inr ((derived s)\<lparr>used_bytes_before := 0\<rparr>,
             (g1h s)\<lparr>retired_gc_alloc_regions := retired_gc_alloc_regions (g1h s) @
                 [(r, used cfg hr - used_bytes_before (derived s), purpose (derived s))]\<rparr>))
   \<and> (G1GCAllocRegion_retire cfg sched fill_up s = Inr (end_waste, s') \<longrightarrow>
        (\<exists>s1. G1AllocRegion_retire (G1GCAllocRegion_retire_region cfg) cfg sched fill_up s
                = Inr (end_waste, s1))
        \<and> region_end_waste (g1h s') = region_end_waste (g1h s) @
            (if alloc_region s \<noteq> dummy_region s
             then [(stats (derived s), end_waste div HeapWordSize cfg)] else []))
   \<and> (0 < HeapWordSize cfg \<and> 0 < min_fill_size cfg \<and> alloc_region s = Some r
        \<and> Some r \<noteq> dummy_region s \<and> regions s r = Some hr \<and> \<not> is_empty_region cfg hr
        \<and> used_bytes_before (derived s) \<le> used cfg hr \<longrightarrow>
        (\<exists>waste s2. G1GCAllocRegion_retire cfg sched fill_up s = Inr (waste, s2)))"
proof (intro conjI impI)
  assume "regions s r = Some hr \<and> used_bytes_before (derived s) \<le> used cfg hr"
  then show "G1GCAllocRegion_retire_region cfg r s =
        Inr ((derived s)\<lparr>used_bytes_before := 0\<rparr>,
             (g1h s)\<lparr>retired_gc_alloc_regions := retired_gc_alloc_regions (g1h s) @
                 [(r, used cfg hr - used_bytes_before (derived s), purpose (derived s))]\<rparr>)"
    by (simp add: G1GCAllocRegion_retire_region_def and_then_def region_at_def
        retire_gc_alloc_region_def)
next
  assume run: "G1GCAllocRegion_retire cfg sched fill_up s = Inr (end_waste, s')"
  then obtain s1 where base:
    "G1AllocRegion_retire (G1GCAllocRegion_retire_region cfg) cfg sched fill_up s = Inr (end_waste, s1)"
    and s': "s' = (if G1AllocRegion_get s \<noteq> None
                  then s1\<lparr>g1h := add_region_end_waste (stats (derived s1))
                                   (end_waste div HeapWordSize cfg) (g1h s1)\<rparr>
                  else s1)"
    by (auto simp: G1GCAllocRegion_retire_def and_then_def Let_def split: sum.splits)
  from base show "\<exists>s1. G1AllocRegion_retire (G1GCAllocRegion_retire_region cfg) cfg sched fill_up s
                = Inr (end_waste, s1)" ..
  from G1AllocRegion_retire_frame [OF base] have init: "alloc_region s \<noteq> None" by simp
  with G1GCAllocRegion_base_retire_frame [OF base]
  show "region_end_waste (g1h s') = region_end_waste (g1h s) @
            (if alloc_region s \<noteq> dummy_region s
             then [(stats (derived s), end_waste div HeapWordSize cfg)] else [])"
    by (cases "alloc_region s = dummy_region s")
       (simp_all add: s' G1AllocRegion_get_def add_region_end_waste_def)
next
  assume a: "0 < HeapWordSize cfg \<and> 0 < min_fill_size cfg \<and> alloc_region s = Some r
        \<and> Some r \<noteq> dummy_region s \<and> regions s r = Some hr \<and> \<not> is_empty_region cfg hr
        \<and> used_bytes_before (derived s) \<le> used cfg hr"
  have "\<exists>waste s1. G1AllocRegion_retire (G1GCAllocRegion_retire_region cfg) cfg sched fill_up s
      = Inr (waste, s1)"
  proof (cases fill_up)
    case False
    with a show ?thesis
      by (simp add: G1AllocRegion_retire_def retire_internal_def and_then_def region_at_def
          G1GCAllocRegion_retire_region_def)
  next
    case True
    from a fill_up_remaining_space_spec [of cfg r s hr sched]
    obtain waste hr' where f: "fill_up_remaining_space cfg sched r s = Inr (waste, store_region r hr' s)"
      and mono: "allocated hr \<le> allocated hr'"
      by blast
    from mono have "used cfg hr \<le> used cfg hr'" by (simp add: used_def)
    with a f True show ?thesis
      by (simp add: G1AllocRegion_retire_def retire_internal_def and_then_def region_at_def
          G1GCAllocRegion_retire_region_def)
  qed
  then show "\<exists>waste s2. G1GCAllocRegion_retire cfg sched fill_up s = Inr (waste, s2)"
    by (auto simp: G1GCAllocRegion_retire_def and_then_def Let_def)
qed

theorem G1GCAllocRegion_retire_reports_witness:
  "regions example_gc 2 = Some example_region
   \<and> used_bytes_before (derived example_gc) \<le> used example_cfg example_region
   \<and> G1GCAllocRegion_retire_region example_cfg 2 example_gc =
        Inr (\<lparr>used_bytes_before = 0, purpose = Old, stats = 7\<rparr>,
             example_heap\<lparr>retired_gc_alloc_regions := [(2, 16000, Old)]\<rparr>)
   \<and> map_sum id fst (G1GCAllocRegion_retire example_cfg example_race True example_gc) = Inr 304
   \<and> (\<exists>s'. G1GCAllocRegion_retire example_cfg example_race True example_gc = Inr (304, s')
        \<and> region_end_waste (g1h s') = [(7, 38)])
   \<and> G1GCAllocRegion_retire example_cfg example_race True example_idle = Inr (0, example_idle)"
proof -
  have h: "regions example_gc 2 = Some example_region"
    "used_bytes_before (derived example_gc) \<le> used example_cfg example_region"
    by (simp_all add: example_defs used_def)
  have v: "used example_cfg example_region = 16000" "derived example_gc = \<lparr>used_bytes_before = 0, purpose = Old, stats = 7\<rparr>"
    "g1h example_gc = example_heap" "retired_gc_alloc_regions example_heap = []"
    "region_end_waste example_heap = []" "alloc_region example_gc \<noteq> dummy_region example_gc"
    "HeapWordSize example_cfg = 8"
    by (simp_all add: example_defs used_def)
  obtain s' where run: "G1GCAllocRegion_retire example_cfg example_race True example_gc = Inr (304, s')"
    by (simp add: G1GCAllocRegion_retire_def example_defs eval_defs G1AllocRegion_get_def)
  have idle: "G1GCAllocRegion_retire example_cfg example_race True example_idle = Inr (0, example_idle)"
    by (simp add: G1GCAllocRegion_retire_def example_idle_def eval_defs G1AllocRegion_get_def)
  note inst = G1GCAllocRegion_retire_reports [of example_gc 2 example_region example_cfg example_race True 304 s']
  from inst h v have hook: "G1GCAllocRegion_retire_region example_cfg 2 example_gc =
        Inr (\<lparr>used_bytes_before = 0, purpose = Old, stats = 7\<rparr>,
             example_heap\<lparr>retired_gc_alloc_regions := [(2, 16000, Old)]\<rparr>)"
    by simp
  from inst run v have log: "region_end_waste (g1h s') = [(7, 38)]"
    by simp
  from h hook run log idle show ?thesis by simp
qed

section \<open>The wasted-byte counter of the mutator allocator\<close>

lemma MutatorAllocRegion_retire_region_result:
  assumes "MutatorAllocRegion_retire_region cfg r s = Inr (d, h)"
  shows "d = derived s"
  using assms
  by (auto simp: MutatorAllocRegion_retire_region_def and_then_def region_at_def split: option.splits)

lemma mutator_retire_internal_derived:
  assumes "retire_internal (MutatorAllocRegion_retire_region cfg) cfg sched r fill_up s = Inr (waste, s1)"
  shows "derived s1 = derived s \<and> alloc_region s1 = alloc_region s \<and> dummy_region s1 = dummy_region s
     \<and> (\<not> fill_up \<longrightarrow> waste = 0)"
proof -
  from retire_internal_frame [OF assms] obtain hr' d h where
    s1: "s1 = (store_region r hr' s)\<lparr>derived := d, g1h := h\<rparr>"
    and rr: "MutatorAllocRegion_retire_region cfg r (if fill_up then store_region r hr' s else s) = Inr (d, h)"
    by blast
  from MutatorAllocRegion_retire_region_result [OF rr] have "d = derived s"
    by (simp split: if_splits)
  moreover have "\<not> fill_up \<longrightarrow> waste = 0"
    using assms
    by (auto simp: retire_internal_def and_then_def region_at_def
        split: option.splits if_splits sum.splits prod.splits)
  ultimately show ?thesis by (simp add: s1)
qed

lemma MutatorAllocRegion_retire_cases:
  assumes "MutatorAllocRegion_retire cfg sched fill_up s = Inr (waste, s')"
  shows "(G1AllocRegion_get s = None \<and> waste = 0 \<and> s' = add_wasted_bytes 0 s)
    \<or> (\<exists>c s1. G1AllocRegion_get s = Some c \<and> should_retain cfg c s = Inr False
          \<and> retire_internal (MutatorAllocRegion_retire_region cfg) cfg sched c fill_up s = Inr (waste, s1)
          \<and> s' = add_wasted_bytes waste (reset_alloc_region s1))
    \<or> (\<exists>c. G1AllocRegion_get s = Some c \<and> should_retain cfg c s = Inr True
          \<and> retained_alloc_region (derived s) = None \<and> waste = 0
          \<and> s' = add_wasted_bytes 0 (reset_alloc_region
                 (s\<lparr>derived := (derived s)\<lparr>retained_alloc_region := Some c\<rparr>\<rparr>)))
    \<or> (\<exists>c q s1. G1AllocRegion_get s = Some c \<and> should_retain cfg c s = Inr True
          \<and> retained_alloc_region (derived s) = Some q
          \<and> retire_internal (MutatorAllocRegion_retire_region cfg) cfg sched q True s = Inr (waste, s1)
          \<and> s' = add_wasted_bytes waste (reset_alloc_region
                 (s1\<lparr>derived := (derived s1)\<lparr>retained_alloc_region := Some c\<rparr>\<rparr>)))"
proof (cases "G1AllocRegion_get s")
  case None
  with assms show ?thesis by (auto simp: MutatorAllocRegion_retire_def and_then_def)
next
  case (Some c)
  show ?thesis
  proof (cases "should_retain cfg c s")
    case (Inl e)
    with assms Some show ?thesis by (simp add: MutatorAllocRegion_retire_def and_then_def)
  next
    case (Inr retain)
    show ?thesis
    proof (cases retain)
      case False
      with assms Some Inr show ?thesis
        by (auto simp: MutatorAllocRegion_retire_def and_then_def split: sum.splits)
    next
      case True
      show ?thesis
      proof (cases "retained_alloc_region (derived s)")
        case None
        with assms Some Inr True show ?thesis
          by (auto simp: MutatorAllocRegion_retire_def and_then_def)
      next
        case q: (Some q)
        with assms Some Inr True show ?thesis
          by (auto simp: MutatorAllocRegion_retire_def and_then_def split: sum.splits)
      qed
    qed
  qed
qed

lemma add_wasted_bytes_simps [simp]:
  "regions (add_wasted_bytes w s) = regions s"
  "alloc_region (add_wasted_bytes w s) = alloc_region s"
  "dummy_region (add_wasted_bytes w s) = dummy_region s"
  "g1h (add_wasted_bytes w s) = g1h s"
  "count (add_wasted_bytes w s) = count s"
  "retained_alloc_region (derived (add_wasted_bytes w s)) = retained_alloc_region (derived s)"
  "wasted_bytes (derived (add_wasted_bytes w s)) = (wasted_bytes (derived s) + w) mod 2 ^ 64"
  by (simp_all add: add_wasted_bytes_def)

lemma MutatorAllocRegion_retire_wasted:
  assumes "MutatorAllocRegion_retire cfg sched fill_up s = Inr (waste, s')"
  shows "wasted_bytes (derived s') = (wasted_bytes (derived s) + waste) mod 2 ^ 64"
  using MutatorAllocRegion_retire_cases [OF assms]
  by (auto simp: reset_alloc_region_def dest: mutator_retire_internal_derived)

lemma MutatorAllocRegion_release_wasted:
  assumes "MutatorAllocRegion_release cfg sched s = Inr (ret, s')"
  shows "\<exists>waste s1. MutatorAllocRegion_retire cfg sched False s = Inr (waste, s1)
     \<and> wasted_bytes (derived s') = (wasted_bytes (derived s) + waste) mod 2 ^ 64"
proof -
  from assms obtain s1 where
    base: "G1AllocRegion_release (MutatorAllocRegion_retire cfg sched) s = Inr (ret, s1)"
    and rest: "(case retained_alloc_region (derived s1) of
            Some q \<Rightarrow>
              and_then (retire_internal (MutatorAllocRegion_retire_region cfg) cfg sched q False s1)
                (\<lambda>(waste, s2).
                  Inr ((add_wasted_bytes waste s2)
                         \<lparr>derived := (derived (add_wasted_bytes waste s2))
                            \<lparr>retained_alloc_region := None\<rparr>\<rparr>))
          | None \<Rightarrow> Inr s1) = Inr s'"
    unfolding MutatorAllocRegion_release_def
    by (auto simp: and_then_def split: sum.splits)
  from base obtain waste s0 where r: "MutatorAllocRegion_retire cfg sched False s = Inr (waste, s0)"
    and s1: "s1 = s0\<lparr>alloc_region := None\<rparr>"
    by (auto simp: G1AllocRegion_release_def and_then_def Let_def split: sum.splits if_splits)
  from MutatorAllocRegion_retire_wasted [OF r]
  have w1: "wasted_bytes (derived s1) = (wasted_bytes (derived s) + waste) mod 2 ^ 64"
    by (simp add: s1)
  have "wasted_bytes (derived s') = wasted_bytes (derived s1)"
  proof (cases "retained_alloc_region (derived s1)")
    case None
    with rest show ?thesis by simp
  next
    case (Some q)
    with rest obtain w2 s2 where
      ri: "retire_internal (MutatorAllocRegion_retire_region cfg) cfg sched q False s1 = Inr (w2, s2)"
      and s': "s' = (add_wasted_bytes w2 s2)\<lparr>derived := (derived (add_wasted_bytes w2 s2))
                            \<lparr>retained_alloc_region := None\<rparr>\<rparr>"
      by (auto simp: and_then_def split: sum.splits)
    from mutator_retire_internal_derived [OF ri] have "derived s2 = derived s1" "w2 = 0" by simp_all
    then show ?thesis using w1 by (simp add: s' add_wasted_bytes_def)
  qed
  with r w1 show ?thesis by auto
qed

text \<open>
  Claim C8, amended. \<^verbatim>\<open>MutatorAllocRegion::retire\<close> adds the waste it returns to
  \<^verbatim>\<open>_wasted_bytes\<close>, and \<^verbatim>\<open>MutatorAllocRegion::release\<close> adds the waste of the retirement
  it performs, both in the arithmetic of \<^verbatim>\<open>size_t\<close>: neither decreases the counter unless
  that addition wraps around. \<^verbatim>\<open>MutatorAllocRegion::init\<close> sets the counter to zero. The
  counter is monotone between two calls of \<^verbatim>\<open>init\<close>, not over the lifetime of the heap.
\<close>

theorem wasted_bytes_changes:
  "(MutatorAllocRegion_retire cfg sched fill_up s = Inr (waste, s1) \<longrightarrow>
       wasted_bytes (derived s1) = (wasted_bytes (derived s) + waste) mod 2 ^ 64
     \<and> (wasted_bytes (derived s) + waste < 2 ^ 64 \<longrightarrow>
          wasted_bytes (derived s) \<le> wasted_bytes (derived s1)))
   \<and> (MutatorAllocRegion_release cfg sched s = Inr (ret, s2) \<longrightarrow>
       (\<exists>waste2 s0. MutatorAllocRegion_retire cfg sched False s = Inr (waste2, s0)
          \<and> wasted_bytes (derived s2) = (wasted_bytes (derived s) + waste2) mod 2 ^ 64
          \<and> (wasted_bytes (derived s) + waste2 < 2 ^ 64 \<longrightarrow>
               wasted_bytes (derived s) \<le> wasted_bytes (derived s2))))
   \<and> (MutatorAllocRegion_init t = Inr s3 \<longrightarrow> wasted_bytes (derived s3) = 0)"
proof (intro conjI impI)
  assume r: "MutatorAllocRegion_retire cfg sched fill_up s = Inr (waste, s1)"
  from MutatorAllocRegion_retire_wasted [OF r]
  show eq: "wasted_bytes (derived s1) = (wasted_bytes (derived s) + waste) mod 2 ^ 64" .
  assume "wasted_bytes (derived s) + waste < 2 ^ 64"
  with eq show "wasted_bytes (derived s) \<le> wasted_bytes (derived s1)" by simp
next
  assume "MutatorAllocRegion_release cfg sched s = Inr (ret, s2)"
  from MutatorAllocRegion_release_wasted [OF this] obtain waste2 s0 where
    "MutatorAllocRegion_retire cfg sched False s = Inr (waste2, s0)"
    "wasted_bytes (derived s2) = (wasted_bytes (derived s) + waste2) mod 2 ^ 64"
    by blast
  then show "\<exists>waste2 s0. MutatorAllocRegion_retire cfg sched False s = Inr (waste2, s0)
          \<and> wasted_bytes (derived s2) = (wasted_bytes (derived s) + waste2) mod 2 ^ 64
          \<and> (wasted_bytes (derived s) + waste2 < 2 ^ 64 \<longrightarrow>
               wasted_bytes (derived s) \<le> wasted_bytes (derived s2))"
    by (intro exI [of _ waste2] exI [of _ s0]) simp
next
  assume "MutatorAllocRegion_init t = Inr s3"
  then show "wasted_bytes (derived s3) = 0"
    by (auto simp: MutatorAllocRegion_init_def G1AllocRegion_init_def and_then_def split: if_splits)
qed

theorem wasted_bytes_changes_witness:
  "\<exists>s1 s2 t s3.
      MutatorAllocRegion_retire example_cfg example_race True example_mutator = Inr (304, s1)
    \<and> wasted_bytes (derived example_mutator) + 304 < (2::nat) ^ 64
    \<and> wasted_bytes (derived s1) = (wasted_bytes (derived example_mutator) + 304) mod 2 ^ 64
    \<and> wasted_bytes (derived example_mutator) \<le> wasted_bytes (derived s1)
    \<and> MutatorAllocRegion_release example_cfg example_race example_mutator = Inr (Some 2, s2)
    \<and> (\<exists>waste2 s0. MutatorAllocRegion_retire example_cfg example_race False example_mutator
            = Inr (waste2, s0)
         \<and> wasted_bytes (derived s2) = (wasted_bytes (derived example_mutator) + waste2) mod 2 ^ 64)
    \<and> MutatorAllocRegion_release example_cfg example_race s1 = Inr (None, t)
    \<and> MutatorAllocRegion_init t = Inr s3 \<and> wasted_bytes (derived s3) = 0"
proof -
  obtain s1 where r1: "MutatorAllocRegion_retire example_cfg example_race True example_mutator = Inr (304, s1)"
    and s1: "s1 = add_wasted_bytes 304 (reset_alloc_region ((store_region 2
        (example_region\<lparr>allocated := 2048, pre_dummy_top := Some 6106, fillers := [(6106, 38)]\<rparr>)
        example_mutator)\<lparr>derived := derived example_mutator,
           g1h := retire_mutator_alloc_region 2 16384 example_heap\<rparr>))"
    by (simp add: example_mutator_def example_defs eval_defs mutator_eval_defs)
  obtain s2 where r2: "MutatorAllocRegion_release example_cfg example_race example_mutator = Inr (Some 2, s2)"
    by (simp add: example_mutator_def example_defs eval_defs mutator_eval_defs)
  obtain t where r3: "MutatorAllocRegion_release example_cfg example_race s1 = Inr (None, t)"
    and t: "t = add_wasted_bytes 0 (s1\<lparr>alloc_region := None\<rparr>)"
    by (simp add: s1 example_mutator_def example_defs eval_defs mutator_eval_defs)
  obtain s3 where r4: "MutatorAllocRegion_init t = Inr s3"
    by (simp add: t s1 example_mutator_def example_defs eval_defs mutator_eval_defs)
  have small: "wasted_bytes (derived example_mutator) + 304 < (2::nat) ^ 64"
    by (simp add: example_mutator_def)
  note inst = wasted_bytes_changes [of example_cfg example_race True example_mutator 304 s1
      "Some 2" s2 t s3]
  from inst r1 have a: "wasted_bytes (derived s1) = (wasted_bytes (derived example_mutator) + 304) mod 2 ^ 64"
    by blast
  from inst r1 small have b: "wasted_bytes (derived example_mutator) \<le> wasted_bytes (derived s1)"
    by blast
  from inst r2 have c: "\<exists>waste2 s0. MutatorAllocRegion_retire example_cfg example_race False example_mutator
            = Inr (waste2, s0)
         \<and> wasted_bytes (derived s2) = (wasted_bytes (derived example_mutator) + waste2) mod 2 ^ 64"
    by blast
  from inst r4 have d: "wasted_bytes (derived s3) = 0"
    by blast
  from r1 r2 r3 r4 small a b c d show ?thesis by blast
qed

text \<open>
  The claim as first stated, that no operation ever decreases the counter: a retirement
  wastes 304 bytes, \<^verbatim>\<open>release\<close> keeps the 304, and the \<^verbatim>\<open>init\<close> that makes the released
  object usable again sets the counter to 0.
\<close>

theorem wasted_bytes_counterexample:
  "and_then (MutatorAllocRegion_retire example_cfg example_race True example_mutator) (\<lambda>(waste, s1).
     and_then (MutatorAllocRegion_release example_cfg example_race s1) (\<lambda>(ret, s2).
       and_then (MutatorAllocRegion_init s2) (\<lambda>s3.
         Inr (wasted_bytes (derived s1), wasted_bytes (derived s2), wasted_bytes (derived s3)))))
   = Inr (304, 304, 0)"
  by (simp add: example_mutator_def example_defs eval_defs mutator_eval_defs)

section \<open>The retained region of the mutator allocator\<close>

text \<open>
  What \<^verbatim>\<open>should_retain\<close> computes: the candidate is retained when its free bytes reach
  \<^verbatim>\<open>MinTLABSize\<close> and no region is retained or the retained one has at most as many free
  bytes.
\<close>

lemma should_retain_iff:
  assumes "regions s r = Some hr"
    and "retained_alloc_region (derived s) = None
       \<or> (\<exists>q. retained_alloc_region (derived s) = Some q \<and> regions s q = Some qhr)"
  shows "should_retain cfg r s =
     Inr (MinTLABSize cfg \<le> free cfg hr
          \<and> (retained_alloc_region (derived s) = None \<or> free cfg qhr \<le> free cfg hr))"
  using assms
  by (auto simp: should_retain_def and_then_def region_at_def Let_def)

text \<open>
  The two branches of \<^verbatim>\<open>MutatorAllocRegion::retire\<close> on a real active region. When the
  candidate is retained, a region retained before is retired with \<open>fill_up = true\<close>, the
  waste of that retirement is returned and added to the counter, and the candidate becomes
  the retained region. When it is not, it is retired as \<^verbatim>\<open>retire_internal\<close> does with the
  caller's \<open>fill_up\<close>, and the retained reference and every other region stay as they are.
\<close>

lemma MutatorAllocRegion_retire_retained:
  assumes "G1AllocRegion_get s = Some c" and "should_retain cfg c s = Inr True"
    and "MutatorAllocRegion_retire cfg sched fill_up s = Inr (waste, s')"
  shows "retained_alloc_region (derived s') = Some c \<and> alloc_region s' = dummy_region s'
    \<and> wasted_bytes (derived s') = (wasted_bytes (derived s) + waste) mod 2 ^ 64
    \<and> (case retained_alloc_region (derived s) of
          None \<Rightarrow> waste = 0 \<and> regions s' = regions s \<and> g1h s' = g1h s
        | Some q \<Rightarrow> \<exists>s1. retire_internal (MutatorAllocRegion_retire_region cfg) cfg sched q True s
                         = Inr (waste, s1)
                     \<and> regions s' = regions s1 \<and> g1h s' = g1h s1)"
  using MutatorAllocRegion_retire_cases [OF assms(3)] assms(1,2)
  by (auto simp: reset_alloc_region_def dest: mutator_retire_internal_derived)

lemma MutatorAllocRegion_retire_not_retained:
  assumes "G1AllocRegion_get s = Some c" and "should_retain cfg c s = Inr False"
    and "MutatorAllocRegion_retire cfg sched fill_up s = Inr (waste, s')"
  shows "retained_alloc_region (derived s') = retained_alloc_region (derived s)
    \<and> alloc_region s' = dummy_region s'
    \<and> (\<exists>s1. retire_internal (MutatorAllocRegion_retire_region cfg) cfg sched c fill_up s = Inr (waste, s1)
          \<and> regions s' = regions s1 \<and> g1h s' = g1h s1)
    \<and> (\<forall>q. q \<noteq> c \<longrightarrow> regions s' q = regions s q)"
proof -
  from MutatorAllocRegion_retire_cases [OF assms(3)] assms(1,2) obtain s1 where
    ri: "retire_internal (MutatorAllocRegion_retire_region cfg) cfg sched c fill_up s = Inr (waste, s1)"
    and s': "s' = add_wasted_bytes waste (reset_alloc_region s1)"
    by auto
  from retire_internal_frame [OF ri] obtain hr' d h where
    "s1 = (store_region c hr' s)\<lparr>derived := d, g1h := h\<rparr>" by blast
  then have other: "\<forall>q. q \<noteq> c \<longrightarrow> regions s1 q = regions s q" by simp
  from mutator_retire_internal_derived [OF ri] ri other show ?thesis
    by (auto simp: s' reset_alloc_region_def)
qed

text \<open>
  Claim C3 at a candidate with exactly as many free bytes as the retained region (4096
  each, \<^verbatim>\<open>MinTLABSize\<close> 2048). The claim, like the comment in
  \<^verbatim>\<open>MutatorAllocRegion::retire\<close> ("has more free than the currently retained region"),
  retains the candidate only when it has strictly more free bytes. The code retains it:
  \<^verbatim>\<open>should_retain\<close> answers true, the retained region 3 is retired with its 512 free words
  filled up (4096 bytes of waste, added to the counter), and the candidate 2 becomes the
  retained region.
\<close>

theorem should_retain_on_equal_free:
  "alloc_region example_tie = Some 2 \<and> regions example_tie 2 = Some example_half
   \<and> retained_alloc_region (derived example_tie) = Some 3
   \<and> regions example_tie 3 = Some example_retained
   \<and> free example_cfg example_half = 4096 \<and> free example_cfg example_retained = 4096
   \<and> MinTLABSize example_cfg \<le> 4096
   \<and> should_retain example_cfg 2 example_tie = Inr True
   \<and> map_sum id (\<lambda>(waste, s). (waste, retained_alloc_region (derived s),
          retired_mutator_alloc_regions (g1h s), wasted_bytes (derived s)))
        (MutatorAllocRegion_retire example_cfg example_quiet False example_tie)
      = Inr (4096, Some 2, [(3, 16384)], 4096)"
  by (simp add: example_tie_def example_half_def example_retained_def example_quiet_def
      example_defs eval_defs mutator_eval_defs)

section \<open>The fill-up loop against the schedule\<close>










section \<open>Retirement with filling up\<close>





lemma MutatorAllocRegion_retire_retains:
  assumes "real_active_region cfg s r hr" and "should_retain cfg r s = Inr True"
  shows "MutatorAllocRegion_retire cfg sched fill_up s =
     and_then (case retained_alloc_region (derived s) of
                 Some q \<Rightarrow> retire_internal (MutatorAllocRegion_retire_region cfg) cfg sched q True s
               | None \<Rightarrow> Inr (0, s)) (\<lambda>(waste, s1).
       Inr (waste, add_wasted_bytes waste (reset_alloc_region
              (s1\<lparr>derived := (derived s1)\<lparr>retained_alloc_region := Some r\<rparr>\<rparr>))))"
proof -
  from assms(1) have get: "G1AllocRegion_get s = Some r"
    by (auto simp: real_active_region_def G1AllocRegion_get_def)
  show ?thesis
    by (simp add: MutatorAllocRegion_retire_def get assms(2) and_then_def
        split: sum.splits prod.splits option.splits)
qed





section \<open>Retirement without filling up\<close>

lemma G1GCAllocRegion_retire_plain:
  assumes "real_active_region cfg g r hr"
  shows "G1GCAllocRegion_retire cfg sched False g =
           and_then (G1GCAllocRegion_retire_region cfg r g) (\<lambda>(d, h).
             Inr (0, reset_alloc_region
               (g\<lparr>derived := d, g1h := add_region_end_waste (stats d) 0 h\<rparr>)))"
proof -
  from assms have get: "G1AllocRegion_get g = Some r"
    by (auto simp: real_active_region_def G1AllocRegion_get_def)
  from assms show ?thesis
    by (simp add: G1GCAllocRegion_retire_def get G1AllocRegion_retire_def retire_internal_def
        real_active_region_def and_then_def region_at_def reset_alloc_region_def
        split: sum.splits prod.splits)
qed

lemma G1GCAllocRegion_release_plain:
  assumes "real_active_region cfg g r hr"
  shows "G1AllocRegion_release (G1GCAllocRegion_retire cfg sched) g =
           and_then (G1GCAllocRegion_retire_region cfg r g) (\<lambda>(d, h).
             Inr (Some r, g\<lparr>derived := d, g1h := add_region_end_waste (stats d) 0 h,
                            alloc_region := None\<rparr>))"
  using assms
  by (auto simp: G1AllocRegion_release_def G1GCAllocRegion_retire_plain [OF assms]
      real_active_region_def and_then_def reset_alloc_region_def split: sum.splits)

lemma MutatorAllocRegion_retire_plain:
  assumes "real_active_region cfg m r hr" and "should_retain cfg r m = Inr False"
  shows "MutatorAllocRegion_retire cfg sched False m =
     and_then (MutatorAllocRegion_retire_region cfg r m) (\<lambda>(d, h).
       Inr (0, add_wasted_bytes 0 (reset_alloc_region (m\<lparr>derived := d, g1h := h\<rparr>))))"
proof -
  from assms(1) have get: "G1AllocRegion_get m = Some r"
    by (auto simp: real_active_region_def G1AllocRegion_get_def)
  from assms(1) show ?thesis
    by (simp add: MutatorAllocRegion_retire_def get assms(2) real_active_region_def
        retire_internal_def and_then_def region_at_def split: sum.splits prod.splits)
qed

lemma MutatorAllocRegion_release_adds_retire_waste:
  assumes "MutatorAllocRegion_release cfg sched m = Inr (released, m2)"
  shows "\<exists>waste m1. MutatorAllocRegion_retire cfg sched False m = Inr (waste, m1)
     \<and> wasted_bytes (derived m2) = wasted_bytes (derived m1)"
proof -
  from MutatorAllocRegion_release_wasted [OF assms] obtain waste m1 where
    r: "MutatorAllocRegion_retire cfg sched False m = Inr (waste, m1)"
    and w: "wasted_bytes (derived m2) = (wasted_bytes (derived m) + waste) mod 2 ^ 64"
    by blast
  from MutatorAllocRegion_retire_wasted [OF r] w r show ?thesis by simp
qed

text \<open>
  Claim C10, amended. For a non-dummy, non-empty active region, \<^verbatim>\<open>retire_internal\<close> with
  \<open>fill_up = false\<close> is the \<^verbatim>\<open>retire_region\<close> hook and nothing else and returns waste 0;
  so does \<^verbatim>\<open>G1AllocRegion::retire(false)\<close>, which then resets the active region to the
  dummy, and a \<^verbatim>\<open>release\<close> that runs it. \<^verbatim>\<open>G1GCAllocRegion::retire(false)\<close> returns
  waste 0 and reports 0 words to its statistics, also when \<^verbatim>\<open>release\<close> calls it.
  \<^verbatim>\<open>MutatorAllocRegion::retire(false)\<close> returns waste 0 when it does not retain the
  region, and when it retains it and no region was retained before. When it retains the
  region in place of one retained before, it retires that one with \<open>fill_up = true\<close>, and
  the waste of that fill-up is what it returns and adds to the counter.
  \<^verbatim>\<open>MutatorAllocRegion::release\<close> leaves the counter as the \<^verbatim>\<open>retire(false)\<close> it calls
  left it: its own retirement of the retained region, without fill-up, adds nothing. Waste
  comes from the fill-up path only.
\<close>

theorem retire_without_fill_up_no_waste:
  assumes "alloc_region s = Some r" and "Some r \<noteq> dummy_region s"
    and "regions s r = Some hr" and "\<not> is_empty_region cfg hr"
  shows "retire_internal retire_region cfg sched r False s =
           and_then (retire_region r s) (\<lambda>(d, h). Inr (0, s\<lparr>derived := d, g1h := h\<rparr>))
     \<and> G1AllocRegion_retire retire_region cfg sched False s =
           and_then (retire_region r s) (\<lambda>(d, h).
             Inr (0, reset_alloc_region (s\<lparr>derived := d, g1h := h\<rparr>)))
     \<and> G1AllocRegion_release (G1AllocRegion_retire retire_region cfg sched) s =
           and_then (retire_region r s) (\<lambda>(d, h).
             Inr (Some r, s\<lparr>derived := d, g1h := h, alloc_region := None\<rparr>))
     \<and> (real_active_region cfg g r hr \<longrightarrow>
           G1GCAllocRegion_retire cfg sched False g =
             and_then (G1GCAllocRegion_retire_region cfg r g) (\<lambda>(d, h).
               Inr (0, reset_alloc_region
                 (g\<lparr>derived := d, g1h := add_region_end_waste (stats d) 0 h\<rparr>)))
         \<and> G1AllocRegion_release (G1GCAllocRegion_retire cfg sched) g =
             and_then (G1GCAllocRegion_retire_region cfg r g) (\<lambda>(d, h).
               Inr (Some r, g\<lparr>derived := d, g1h := add_region_end_waste (stats d) 0 h,
                              alloc_region := None\<rparr>)))
     \<and> (real_active_region cfg m r hr \<and> should_retain cfg r m = Inr False \<longrightarrow>
           MutatorAllocRegion_retire cfg sched False m =
             and_then (MutatorAllocRegion_retire_region cfg r m) (\<lambda>(d, h).
               Inr (0, add_wasted_bytes 0 (reset_alloc_region (m\<lparr>derived := d, g1h := h\<rparr>)))))
     \<and> (real_active_region cfg m r hr \<and> should_retain cfg r m = Inr True
          \<and> retained_alloc_region (derived m) = None \<longrightarrow>
           MutatorAllocRegion_retire cfg sched False m =
             Inr (0, add_wasted_bytes 0 (reset_alloc_region
                    (m\<lparr>derived := (derived m)\<lparr>retained_alloc_region := Some r\<rparr>\<rparr>))))
     \<and> (real_active_region cfg m r hr \<and> should_retain cfg r m = Inr True
          \<and> retained_alloc_region (derived m) = Some q \<longrightarrow>
           MutatorAllocRegion_retire cfg sched False m =
             and_then (retire_internal (MutatorAllocRegion_retire_region cfg) cfg sched q True m)
               (\<lambda>(displaced_waste, m1).
                 Inr (displaced_waste, add_wasted_bytes displaced_waste (reset_alloc_region
                        (m1\<lparr>derived := (derived m1)\<lparr>retained_alloc_region := Some r\<rparr>\<rparr>)))))
     \<and> (MutatorAllocRegion_release cfg sched m = Inr (released, m2) \<longrightarrow>
           (\<exists>waste m1. MutatorAllocRegion_retire cfg sched False m = Inr (waste, m1)
              \<and> wasted_bytes (derived m2) = wasted_bytes (derived m1)))"
proof -
  have internal: "retire_internal retire_region cfg sched r False s =
      and_then (retire_region r s) (\<lambda>(d, h). Inr (0, s\<lparr>derived := d, g1h := h\<rparr>))"
    using assms by (simp add: retire_internal_def and_then_def region_at_def)
  have retire: "G1AllocRegion_retire retire_region cfg sched False s =
      and_then (retire_region r s) (\<lambda>(d, h). Inr (0, reset_alloc_region (s\<lparr>derived := d, g1h := h\<rparr>)))"
    using assms by (simp add: G1AllocRegion_retire_def internal and_then_def split: sum.splits)
  have release: "G1AllocRegion_release (G1AllocRegion_retire retire_region cfg sched) s =
      and_then (retire_region r s) (\<lambda>(d, h).
        Inr (Some r, s\<lparr>derived := d, g1h := h, alloc_region := None\<rparr>))"
    using assms
    by (auto simp: G1AllocRegion_release_def retire and_then_def reset_alloc_region_def
        split: sum.splits)
  have none: "MutatorAllocRegion_retire cfg sched False m =
             Inr (0, add_wasted_bytes 0 (reset_alloc_region
                    (m\<lparr>derived := (derived m)\<lparr>retained_alloc_region := Some r\<rparr>\<rparr>)))"
    if "real_active_region cfg m r hr" "should_retain cfg r m = Inr True"
      "retained_alloc_region (derived m) = None"
    using MutatorAllocRegion_retire_retains [OF that(1,2), of sched False] that(3)
    by (simp add: and_then_def)
  have some: "MutatorAllocRegion_retire cfg sched False m =
             and_then (retire_internal (MutatorAllocRegion_retire_region cfg) cfg sched q True m)
               (\<lambda>(displaced_waste, m1).
                 Inr (displaced_waste, add_wasted_bytes displaced_waste (reset_alloc_region
                        (m1\<lparr>derived := (derived m1)\<lparr>retained_alloc_region := Some r\<rparr>\<rparr>))))"
    if "real_active_region cfg m r hr" "should_retain cfg r m = Inr True"
      "retained_alloc_region (derived m) = Some q"
    using MutatorAllocRegion_retire_retains [OF that(1,2), of sched False] that(3)
    by simp
  from internal retire release G1GCAllocRegion_retire_plain [of cfg g r hr sched]
    G1GCAllocRegion_release_plain [of cfg g r hr sched]
    MutatorAllocRegion_retire_plain [of cfg m r hr sched] none some
    MutatorAllocRegion_release_adds_retire_waste [of cfg sched m released m2]
  show ?thesis by blast
qed

theorem retire_without_fill_up_no_waste_witness:
  "alloc_region example_gc = Some 2 \<and> Some 2 \<noteq> dummy_region example_gc
   \<and> regions example_gc 2 = Some example_region \<and> \<not> is_empty_region example_cfg example_region
   \<and> map_sum id fst (G1AllocRegion_retire (G1GCAllocRegion_retire_region example_cfg) example_cfg
        example_race False example_gc) = Inr 0
   \<and> map_sum id fst (G1AllocRegion_release (G1AllocRegion_retire
        (G1GCAllocRegion_retire_region example_cfg) example_cfg example_race) example_gc) = Inr (Some 2)
   \<and> real_active_region example_cfg example_gc 2 example_region
   \<and> map_sum id (\<lambda>(waste, s). (waste, region_end_waste (g1h s)))
        (G1GCAllocRegion_retire example_cfg example_race False example_gc) = Inr (0, [(7, 0)])
   \<and> map_sum id (\<lambda>(released, s). (released, region_end_waste (g1h s)))
        (G1AllocRegion_release (G1GCAllocRegion_retire example_cfg example_race) example_gc)
      = Inr (Some 2, [(7, 0)])
   \<and> real_active_region example_cfg example_mutator 2 example_region
   \<and> should_retain example_cfg 2 example_mutator = Inr False
   \<and> map_sum id (\<lambda>(waste, s). (waste, wasted_bytes (derived s)))
        (MutatorAllocRegion_retire example_cfg example_race False example_mutator) = Inr (0, 0)
   \<and> real_active_region example_cfg example_retaining 2 example_roomy
   \<and> should_retain example_cfg 2 example_retaining = Inr True
   \<and> retained_alloc_region (derived example_retaining) = None
   \<and> map_sum id (\<lambda>(waste, s). (waste, retained_alloc_region (derived s), wasted_bytes (derived s)))
        (MutatorAllocRegion_retire example_cfg example_race False example_retaining)
      = Inr (0, Some 2, 0)
   \<and> real_active_region example_cfg example_displace 2 example_half
   \<and> should_retain example_cfg 2 example_displace = Inr True
   \<and> retained_alloc_region (derived example_displace) = Some 3
   \<and> map_sum id (\<lambda>(waste, s). (waste, retained_alloc_region (derived s), wasted_bytes (derived s)))
        (MutatorAllocRegion_retire example_cfg example_quiet False example_displace)
      = Inr (2048, Some 2, 2048)
   \<and> (\<exists>m2. MutatorAllocRegion_release example_cfg example_quiet example_displace = Inr (Some 2, m2)
         \<and> wasted_bytes (derived m2) = 2048)"
proof -
  have h: "alloc_region example_gc = Some 2" "Some 2 \<noteq> dummy_region example_gc"
    "regions example_gc 2 = Some example_region" "\<not> is_empty_region example_cfg example_region"
    by (simp_all add: example_defs is_empty_region_def used_def)
  have a: "real_active_region example_cfg example_gc 2 example_region"
    "real_active_region example_cfg example_mutator 2 example_region"
    "should_retain example_cfg 2 example_mutator = Inr False"
    by (simp_all add: real_active_region_def example_defs example_mutator_def is_empty_region_def
        used_def should_retain_def and_then_def region_at_def free_def)
  have hook: "G1GCAllocRegion_retire_region example_cfg 2 example_gc =
      Inr (\<lparr>used_bytes_before = 0, purpose = Old, stats = 7\<rparr>,
           retire_gc_alloc_region 2 16000 Old example_heap)"
    by (simp add: G1GCAllocRegion_retire_region_def and_then_def region_at_def example_defs used_def)
  have mhook: "MutatorAllocRegion_retire_region example_cfg 2 example_mutator =
      Inr (derived example_mutator, retire_mutator_alloc_region 2 16000 example_heap)"
    by (simp add: MutatorAllocRegion_retire_region_def and_then_def region_at_def example_defs
        example_mutator_def used_def)
  note first = retire_without_fill_up_no_waste [OF h, where g = example_gc and m = example_mutator
      and retire_region = "G1GCAllocRegion_retire_region example_cfg" and sched = example_race]
  from first have r1: "map_sum id fst (G1AllocRegion_retire (G1GCAllocRegion_retire_region example_cfg) example_cfg
        example_race False example_gc) = Inr 0"
    "map_sum id fst (G1AllocRegion_release (G1AllocRegion_retire
        (G1GCAllocRegion_retire_region example_cfg) example_cfg example_race) example_gc) = Inr (Some 2)"
    by (simp_all add: hook and_then_def)
  from first a(1) have r2: "map_sum id (\<lambda>(waste, s). (waste, region_end_waste (g1h s)))
        (G1GCAllocRegion_retire example_cfg example_race False example_gc) = Inr (0, [(7, 0)])"
    "map_sum id (\<lambda>(released, s). (released, region_end_waste (g1h s)))
        (G1AllocRegion_release (G1GCAllocRegion_retire example_cfg example_race) example_gc)
      = Inr (Some 2, [(7, 0)])"
    by (simp_all add: hook and_then_def reset_alloc_region_def add_region_end_waste_def
        retire_gc_alloc_region_def example_heap_def)
  from first a(2,3) have r3: "map_sum id (\<lambda>(waste, s). (waste, wasted_bytes (derived s)))
        (MutatorAllocRegion_retire example_cfg example_race False example_mutator) = Inr (0, 0)"
    by (simp add: mhook and_then_def reset_alloc_region_def) (simp add: example_mutator_def)
  have h2: "alloc_region example_retaining = Some 2" "Some 2 \<noteq> dummy_region example_retaining"
    "regions example_retaining 2 = Some example_roomy" "\<not> is_empty_region example_cfg example_roomy"
    by (simp_all add: example_retaining_def example_roomy_def example_defs is_empty_region_def used_def)
  have a2: "real_active_region example_cfg example_retaining 2 example_roomy"
    "should_retain example_cfg 2 example_retaining = Inr True"
    "retained_alloc_region (derived example_retaining) = None"
    by (simp_all add: real_active_region_def example_defs example_retaining_def example_roomy_def
        is_empty_region_def used_def should_retain_def and_then_def region_at_def free_def)
  from retire_without_fill_up_no_waste [OF h2, where m = example_retaining and sched = example_race] a2
  have r4: "map_sum id (\<lambda>(waste, s). (waste, retained_alloc_region (derived s), wasted_bytes (derived s)))
        (MutatorAllocRegion_retire example_cfg example_race False example_retaining)
      = Inr (0, Some 2, 0)"
    by (simp add: reset_alloc_region_def) (simp add: example_retaining_def)
  have h3: "alloc_region example_displace = Some 2" "Some 2 \<noteq> dummy_region example_displace"
    "regions example_displace 2 = Some example_half" "\<not> is_empty_region example_cfg example_half"
    by (simp_all add: example_displace_def example_half_def example_defs is_empty_region_def used_def)
  have a3: "real_active_region example_cfg example_displace 2 example_half"
    "should_retain example_cfg 2 example_displace = Inr True"
    "retained_alloc_region (derived example_displace) = Some 3"
    by (simp_all add: real_active_region_def example_defs example_displace_def example_half_def
        example_small_def is_empty_region_def used_def should_retain_def and_then_def region_at_def
        free_def)
  obtain m2 where rel: "MutatorAllocRegion_release example_cfg example_quiet example_displace = Inr (Some 2, m2)"
    by (simp add: example_displace_def example_half_def example_small_def example_quiet_def
        example_defs eval_defs mutator_eval_defs)
  note third = retire_without_fill_up_no_waste [OF h3, where m = example_displace
      and sched = example_quiet and q = 3 and released = "Some 2" and ?m2.0 = m2]
  have displaced: "retire_internal (MutatorAllocRegion_retire_region example_cfg) example_cfg
      example_quiet 3 True example_displace
    = Inr (2048, (store_region 3 (example_small\<lparr>allocated := 2048, pre_dummy_top := Some 50944,
              fillers := [(50944, 256)]\<rparr>) example_displace)
            \<lparr>derived := derived example_displace,
             g1h := retire_mutator_alloc_region 3 16384 example_heap\<rparr>)"
    by (simp add: example_displace_def example_half_def example_small_def example_quiet_def
        example_defs eval_defs mutator_eval_defs)
  from third a3 have r5: "map_sum id (\<lambda>(waste, s). (waste, retained_alloc_region (derived s), wasted_bytes (derived s)))
        (MutatorAllocRegion_retire example_cfg example_quiet False example_displace)
      = Inr (2048, Some 2, 2048)"
    by (simp add: displaced and_then_def reset_alloc_region_def) (simp add: example_displace_def)
  from third rel obtain waste m1 where
    "MutatorAllocRegion_retire example_cfg example_quiet False example_displace = Inr (waste, m1)"
    "wasted_bytes (derived m2) = wasted_bytes (derived m1)"
    by blast
  with r5 have "wasted_bytes (derived m2) = 2048" by simp
  with rel have r6: "\<exists>m2. MutatorAllocRegion_release example_cfg example_quiet example_displace = Inr (Some 2, m2)
         \<and> wasted_bytes (derived m2) = 2048"
    by blast
  from h a r1 r2 r3 a2 r4 a3 r5 r6 show ?thesis by blast
qed


text \<open>
  The claim as first stated, that \<^verbatim>\<open>retire(false)\<close>, and so \<^verbatim>\<open>release()\<close>, returns zero
  waste for every non-dummy active region. The active region of a \<^verbatim>\<open>MutatorAllocRegion\<close>
  has 4096 bytes free and the retained region 2048: \<^verbatim>\<open>retire(false)\<close> retains the active
  region, fills up and retires the one retained before, and returns 2048 bytes of waste;
  \<^verbatim>\<open>release()\<close>, which calls it, leaves 2048 in the counter.
\<close>

theorem retire_without_fill_up_counterexample:
  "alloc_region example_displace = Some 2 \<and> Some 2 \<noteq> dummy_region example_displace
   \<and> regions example_displace 2 = Some example_half \<and> \<not> is_empty_region example_cfg example_half
   \<and> retained_alloc_region (derived example_displace) = Some 3
   \<and> regions example_displace 3 = Some example_small
   \<and> free example_cfg example_half = 4096 \<and> free example_cfg example_small = 2048
   \<and> map_sum id fst (MutatorAllocRegion_retire example_cfg example_quiet False example_displace)
      = Inr 2048
   \<and> map_sum id (\<lambda>(released, s). (released, wasted_bytes (derived s)))
        (MutatorAllocRegion_release example_cfg example_quiet example_displace)
      = Inr (Some 2, 2048)"
  by (simp add: example_displace_def example_half_def example_small_def example_quiet_def
      example_defs eval_defs mutator_eval_defs)

section \<open>Allocations that race on one region\<close>

lemma attempt_allocations_spec:
  assumes "alloc_region s = Some r" and "regions s r = Some hr" and "allocated hr \<le> capacity hr"
  shows "\<exists>spans s' hr'. attempt_allocations ws s = Inr (spans, s')
     \<and> alloc_region s' = Some r \<and> regions s' r = Some hr'
     \<and> bottom hr' = bottom hr \<and> capacity hr' = capacity hr
     \<and> allocated hr' = allocated hr + sum_list (map snd spans)
     \<and> allocated hr' \<le> capacity hr
     \<and> sorted_wrt (\<lambda>a b. fst a + snd a \<le> fst b) spans
     \<and> (\<forall>sp \<in> set spans. bottom hr + allocated hr \<le> fst sp
           \<and> fst sp + snd sp \<le> bottom hr + allocated hr')"
  using assms
proof (induction ws arbitrary: s hr)
  case Nil
  then show ?case by simp
next
  case (Cons w ws)
  define hr1 where "hr1 = snd (G1HeapRegion_par_allocate hr w)"
  define s1 where "s1 = store_region r hr1 s"
  define result where "result = fst (G1HeapRegion_par_allocate hr w)"
  have step: "attempt_allocation w s = Inr (result, s1)"
    using Cons.prems
    by (simp add: attempt_allocation_def par_allocate_def and_then_def region_at_def
        hr1_def s1_def result_def split: prod.splits)
  have s1: "alloc_region s1 = Some r" "regions s1 r = Some hr1"
    using Cons.prems by (simp_all add: s1_def)
  have hr1: "bottom hr1 = bottom hr" "capacity hr1 = capacity hr" "allocated hr1 \<le> capacity hr"
    using Cons.prems(3) by (auto simp: hr1_def G1HeapRegion_par_allocate_def)
  from Cons.IH [OF s1] hr1 obtain spans s' hr' where
    rest: "attempt_allocations ws s1 = Inr (spans, s')"
    and st: "alloc_region s' = Some r" "regions s' r = Some hr'"
    and geo: "bottom hr' = bottom hr" "capacity hr' = capacity hr"
    and al: "allocated hr' = allocated hr1 + sum_list (map snd spans)" "allocated hr' \<le> capacity hr"
    and srt: "sorted_wrt (\<lambda>a b. fst a + snd a \<le> fst b) spans"
    and within: "\<forall>sp \<in> set spans. bottom hr + allocated hr1 \<le> fst sp
           \<and> fst sp + snd sp \<le> bottom hr + allocated hr'"
    by auto
  show ?case
  proof (cases "w \<le> capacity hr - allocated hr")
    case True
    then have res: "result = Some (bottom hr + allocated hr)" "allocated hr1 = allocated hr + w"
      by (simp_all add: result_def hr1_def G1HeapRegion_par_allocate_def)
    have run: "attempt_allocations (w # ws) s = Inr ((bottom hr + allocated hr, w) # spans, s')"
      by (simp add: step rest res and_then_def)
    have "sorted_wrt (\<lambda>a b. fst a + snd a \<le> fst b) ((bottom hr + allocated hr, w) # spans)"
      using srt within res by auto
    moreover have "\<forall>sp \<in> set ((bottom hr + allocated hr, w) # spans).
        bottom hr + allocated hr \<le> fst sp \<and> fst sp + snd sp \<le> bottom hr + allocated hr'"
      using within res al by auto
    moreover have "allocated hr' = allocated hr + sum_list (map snd ((bottom hr + allocated hr, w) # spans))"
      using al res by simp
    ultimately show ?thesis using run st geo al(2) by blast
  next
    case False
    then have res: "result = None" "allocated hr1 = allocated hr"
      by (simp_all add: result_def hr1_def G1HeapRegion_par_allocate_def)
    have run: "attempt_allocations (w # ws) s = Inr (spans, s')"
      by (simp add: step rest res and_then_def)
    show ?thesis using run st geo al srt within res by auto
  qed
qed

lemma sorted_spans_disjoint:
  assumes "sorted_wrt (\<lambda>a b. fst a + snd a \<le> fst b) spans"
    and "i < j" and "j < length spans"
  shows "span_set (spans ! i) \<inter> span_set (spans ! j) = {}"
proof -
  from assms have "fst (spans ! i) + snd (spans ! i) \<le> fst (spans ! j)"
    by (simp add: sorted_wrt_iff_nth_less)
  then show ?thesis by (auto simp: span_set_def)
qed

text \<open>
  Claim C6. For any sequence of allocation requests against one active region (a region
  whose allocation pointer lies within its capacity), the calls all return; no two spans
  granted overlap; every span granted lies in the part of the region that was free before;
  and the words granted together with those allocated before never exceed the capacity.
\<close>

theorem concurrent_allocations_disjoint:
  assumes "alloc_region s = Some r" and "regions s r = Some hr" and "allocated hr \<le> capacity hr"
  shows "\<exists>spans s'. attempt_allocations ws s = Inr (spans, s')
     \<and> (\<forall>i j. i < length spans \<and> j < length spans \<and> i \<noteq> j \<longrightarrow>
           span_set (spans ! i) \<inter> span_set (spans ! j) = {})
     \<and> (\<forall>i. i < length spans \<longrightarrow>
           span_set (spans ! i) \<subseteq> {bottom hr + allocated hr ..< bottom hr + capacity hr})
     \<and> allocated hr + sum_list (map snd spans) \<le> capacity hr"
proof -
  from attempt_allocations_spec [OF assms, of ws] obtain spans s' and hr' :: G1HeapRegion where
    run: "attempt_allocations ws s = Inr (spans, s')"
    and al: "allocated hr' = allocated hr + sum_list (map snd spans)" "allocated hr' \<le> capacity hr"
    and srt: "sorted_wrt (\<lambda>a b. fst a + snd a \<le> fst b) spans"
    and within: "\<forall>sp \<in> set spans. bottom hr + allocated hr \<le> fst sp
           \<and> fst sp + snd sp \<le> bottom hr + allocated hr'"
    by blast
  have disj: "span_set (spans ! i) \<inter> span_set (spans ! j) = {}"
    if "i < length spans" "j < length spans" "i \<noteq> j" for i j
  proof (cases "i < j")
    case True
    with srt that show ?thesis by (simp add: sorted_spans_disjoint)
  next
    case False
    with that have "j < i" by simp
    with srt that have "span_set (spans ! j) \<inter> span_set (spans ! i) = {}"
      by (simp add: sorted_spans_disjoint)
    then show ?thesis by blast
  qed
  have inside: "span_set (spans ! i) \<subseteq> {bottom hr + allocated hr ..< bottom hr + capacity hr}"
    if "i < length spans" for i
  proof -
    from that have "spans ! i \<in> set spans" by simp
    with within have "bottom hr + allocated hr \<le> fst (spans ! i)"
      "fst (spans ! i) + snd (spans ! i) \<le> bottom hr + allocated hr'" by auto
    with al(2) show ?thesis by (auto simp: span_set_def)
  qed
  from run disj inside al show ?thesis by (intro exI [of _ spans] exI [of _ s']) auto
qed

theorem concurrent_allocations_disjoint_witness:
  "alloc_region example_contended = Some 2
   \<and> regions example_contended 2 = Some (example_region\<lparr>allocated := 48\<rparr>)
   \<and> allocated (example_region\<lparr>allocated := 48\<rparr>) \<le> capacity (example_region\<lparr>allocated := 48\<rparr>)
   \<and> map_sum id fst (attempt_allocations [1000, 1100] example_contended) = Inr [(4144, 1000)]
   \<and> map_sum id fst (attempt_allocations [1100, 1000] example_contended) = Inr [(4144, 1100)]
   \<and> (\<exists>spans s'. attempt_allocations [1000, 1100] example_contended = Inr (spans, s')
        \<and> (\<forall>i j. i < length spans \<and> j < length spans \<and> i \<noteq> j \<longrightarrow>
              span_set (spans ! i) \<inter> span_set (spans ! j) = {})
        \<and> (\<forall>i. i < length spans \<longrightarrow> span_set (spans ! i) \<subseteq> {4096 + 48 ..< 4096 + 2048})
        \<and> 48 + sum_list (map snd spans) \<le> 2048)"
proof -
  have h: "alloc_region example_contended = Some 2"
    "regions example_contended 2 = Some (example_region\<lparr>allocated := 48\<rparr>)"
    "allocated (example_region\<lparr>allocated := 48\<rparr>) \<le> capacity (example_region\<lparr>allocated := 48\<rparr>)"
    by (simp_all add: example_contended_def example_defs)
  have v: "bottom (example_region\<lparr>allocated := 48\<rparr>) = 4096"
    "allocated (example_region\<lparr>allocated := 48\<rparr>) = 48"
    "capacity (example_region\<lparr>allocated := 48\<rparr>) = 2048"
    by (simp_all add: example_defs)
  have run: "map_sum id fst (attempt_allocations [1000, 1100] example_contended) = Inr [(4144, 1000)]"
    "map_sum id fst (attempt_allocations [1100, 1000] example_contended) = Inr [(4144, 1100)]"
    by (simp_all add: example_contended_def example_defs attempt_allocation_def par_allocate_def
        and_then_def region_at_def G1HeapRegion_par_allocate_def store_region_def)
  from concurrent_allocations_disjoint [OF h, of "[1000, 1100]"] h run show ?thesis
    unfolding v by blast
qed

section \<open>The active region is never empty\<close>

lemma active_region_not_empty_idle:
  "alloc_region s = dummy_region s \<Longrightarrow> active_region_not_empty cfg s"
  by (auto simp: active_region_not_empty_def split: option.splits)

lemma update_alloc_region_publishes:
  assumes "update_alloc_region cfg new_region s = Inr s'"
  shows "active_region_not_empty cfg s'"
  using assms
  by (auto simp: update_alloc_region_def and_then_def region_at_def is_empty_region_def
      active_region_not_empty_def split: option.splits if_splits)

lemma attempt_allocation_keeps:
  assumes "active_region_not_empty cfg s" and "attempt_allocation word_size s = Inr (result, s')"
  shows "active_region_not_empty cfg s'"
proof -
  from assms(2) obtain r hr where a: "alloc_region s = Some r" and hr: "regions s r = Some hr"
    and s': "s' = store_region r (snd (G1HeapRegion_par_allocate hr word_size)) s"
    by (auto simp: attempt_allocation_def par_allocate_def and_then_def region_at_def
        split: option.splits prod.splits)
  have "used cfg hr \<le> used cfg (snd (G1HeapRegion_par_allocate hr word_size))"
    by (simp add: used_def par_allocate_frame)
  with assms(1) a hr show ?thesis
    by (auto simp: active_region_not_empty_def s')
qed

lemma apply_operation_keeps:
  assumes "active_region_not_empty cfg s" and "apply_operation cfg retire_region oper s = Inr s'"
  shows "active_region_not_empty cfg s'"
proof (cases oper)
  case (Op_setup dummy)
  with assms(2) obtain d where "dummy_region s = None" "s' = s\<lparr>dummy_region := Some d\<rparr>"
    by (auto simp: G1AllocRegion_setup_def and_then_def split: if_splits option.splits sum.splits)
  with assms(1) show ?thesis
    by (auto simp: active_region_not_empty_def split: option.splits)
next
  case Op_init
  with assms(2) have "alloc_region s' = dummy_region s'"
    by (auto simp: G1AllocRegion_init_def split: if_splits)
  then show ?thesis by (rule active_region_not_empty_idle)
next
  case (Op_set new_region)
  with assms(2) have "update_alloc_region cfg new_region s = Inr s'"
    by (auto simp: G1AllocRegion_set_def split: if_splits)
  then show ?thesis by (rule update_alloc_region_publishes)
next
  case (Op_new_alloc_region_and_allocate allocate_new_region word_size)
  with assms(2) obtain result where
    run: "new_alloc_region_and_allocate allocate_new_region cfg word_size s = Inr (result, s')"
    by (auto simp: and_then_def split: sum.splits)
  show ?thesis
  proof (cases "allocate_new_region word_size s")
    case None
    with run have "s' = s" by (auto simp: new_alloc_region_and_allocate_def split: if_splits)
    with assms(1) show ?thesis by simp
  next
    case (Some r)
    with run obtain s0 where "update_alloc_region cfg (Some r) s0 = Inr s'"
      by (auto simp: new_alloc_region_and_allocate_def and_then_def Let_def
          split: if_splits sum.splits prod.splits)
    then show ?thesis by (rule update_alloc_region_publishes)
  qed
next
  case (Op_attempt_allocation word_size)
  with assms(2) obtain result where "attempt_allocation word_size s = Inr (result, s')"
    by (auto simp: and_then_def split: sum.splits)
  with assms(1) show ?thesis by (rule attempt_allocation_keeps)
next
  case (Op_retire sched fill_up)
  with assms(2) obtain waste where "G1AllocRegion_retire retire_region cfg sched fill_up s = Inr (waste, s')"
    by (auto simp: and_then_def split: sum.splits)
  from G1AllocRegion_retire_frame [OF this] have "alloc_region s' = dummy_region s'" by simp
  then show ?thesis by (rule active_region_not_empty_idle)
next
  case (Op_release sched)
  with assms(2) have "alloc_region s' = None"
    by (auto simp: G1AllocRegion_release_def and_then_def Let_def split: sum.splits if_splits)
  then show ?thesis by (simp add: active_region_not_empty_def)
qed

text \<open>The operations that the subclasses override keep the invariant of the active region.\<close>

lemma MutatorAllocRegion_retire_keeps:
  assumes "active_region_not_empty cfg s"
    and "MutatorAllocRegion_retire cfg sched fill_up s = Inr (waste, s')"
  shows "active_region_not_empty cfg s'"
proof (cases "G1AllocRegion_get s")
  case None
  with MutatorAllocRegion_retire_cases [OF assms(2)] have "s' = add_wasted_bytes 0 s" by auto
  with assms(1) show ?thesis by (auto simp: active_region_not_empty_def split: option.splits)
next
  case (Some c)
  with MutatorAllocRegion_retire_cases [OF assms(2)] have "alloc_region s' = dummy_region s'"
    by (auto simp: reset_alloc_region_def dest: mutator_retire_internal_derived)
  then show ?thesis by (rule active_region_not_empty_idle)
qed

lemma MutatorAllocRegion_release_keeps:
  assumes "MutatorAllocRegion_release cfg sched s = Inr (ret, s')"
  shows "alloc_region s' = None \<and> active_region_not_empty cfg s'"
proof -
  from assms obtain s1 where
    base: "G1AllocRegion_release (MutatorAllocRegion_retire cfg sched) s = Inr (ret, s1)"
    and rest: "(case retained_alloc_region (derived s1) of
            Some q \<Rightarrow>
              and_then (retire_internal (MutatorAllocRegion_retire_region cfg) cfg sched q False s1)
                (\<lambda>(waste, s2).
                  Inr ((add_wasted_bytes waste s2)
                         \<lparr>derived := (derived (add_wasted_bytes waste s2))
                            \<lparr>retained_alloc_region := None\<rparr>\<rparr>))
          | None \<Rightarrow> Inr s1) = Inr s'"
    unfolding MutatorAllocRegion_release_def
    by (auto simp: and_then_def split: sum.splits)
  from base have null: "alloc_region s1 = None"
    by (auto simp: G1AllocRegion_release_def and_then_def Let_def split: sum.splits if_splits)
  from rest null have "alloc_region s' = None"
    by (auto simp: and_then_def split: option.splits sum.splits
        dest: mutator_retire_internal_derived)
  then show ?thesis by (simp add: active_region_not_empty_def)
qed

lemma MutatorAllocRegion_init_keeps:
  assumes "MutatorAllocRegion_init s = Inr s'"
  shows "active_region_not_empty cfg s'"
proof -
  from assms have "alloc_region s' = dummy_region s'"
    by (auto simp: MutatorAllocRegion_init_def G1AllocRegion_init_def and_then_def split: if_splits)
  then show ?thesis by (rule active_region_not_empty_idle)
qed

lemma G1GCAllocRegion_retire_keeps:
  assumes "G1GCAllocRegion_retire cfg sched fill_up s = Inr (waste, s')"
  shows "active_region_not_empty cfg s'"
proof -
  from assms obtain s1 where
    base: "G1AllocRegion_retire (G1GCAllocRegion_retire_region cfg) cfg sched fill_up s = Inr (waste, s1)"
    and "alloc_region s' = alloc_region s1" "dummy_region s' = dummy_region s1"
    by (auto simp: G1GCAllocRegion_retire_def and_then_def Let_def split: sum.splits if_splits)
  with G1AllocRegion_retire_frame [OF base] have "alloc_region s' = dummy_region s'" by simp
  then show ?thesis by (rule active_region_not_empty_idle)
qed

lemma reuse_keeps:
  assumes "reuse cfg r s = Inr s'"
  shows "active_region_not_empty cfg s'"
proof -
  from assms obtain s0 where "update_alloc_region cfg (Some r) s0 = Inr s'"
    by (auto simp: reuse_def G1AllocRegion_set_def and_then_def split: sum.splits if_splits)
  then show ?thesis by (rule update_alloc_region_publishes)
qed

lemma MutatorAllocRegion_apply_keeps:
  assumes "active_region_not_empty cfg s" and "MutatorAllocRegion_apply cfg oper s = Inr s'"
  shows "active_region_not_empty cfg s'"
proof -
  consider (init) "oper = Op_init"
    | (retire) sched fill_up where "oper = Op_retire sched fill_up"
    | (release) sched where "oper = Op_release sched"
    | (inherited) "MutatorAllocRegion_apply cfg oper s =
        apply_operation cfg (MutatorAllocRegion_retire_region cfg) oper s"
    by (cases oper) simp_all
  then show ?thesis
  proof cases
    case init
    with assms(2) show ?thesis by (auto intro: MutatorAllocRegion_init_keeps)
  next
    case retire
    with assms show ?thesis
      by (auto simp: and_then_def split: sum.splits intro: MutatorAllocRegion_retire_keeps)
  next
    case release
    with assms(2) show ?thesis
      by (auto simp: and_then_def split: sum.splits dest: MutatorAllocRegion_release_keeps)
  next
    case inherited
    with assms(2) have "apply_operation cfg (MutatorAllocRegion_retire_region cfg) oper s = Inr s'"
      by simp
    with assms(1) show ?thesis by (rule apply_operation_keeps)
  qed
qed

lemma G1GCAllocRegion_apply_inherited:
  "(\<exists>sched fill_up. base = Op_retire sched fill_up) \<or> (\<exists>sched. base = Op_release sched)
   \<or> G1GCAllocRegion_apply cfg (Op_inherited base) s =
       apply_operation cfg (G1GCAllocRegion_retire_region cfg) base s"
  by (cases base) simp_all

lemma G1GCAllocRegion_apply_keeps:
  assumes "active_region_not_empty cfg s" and "G1GCAllocRegion_apply cfg oper s = Inr s'"
  shows "active_region_not_empty cfg s'"
proof (cases oper)
  case (Op_reuse r)
  with assms(2) show ?thesis by (auto intro: reuse_keeps)
next
  case (Op_inherited base)
  from G1GCAllocRegion_apply_inherited [of base cfg s]
  consider (retire) sched fill_up where "base = Op_retire sched fill_up"
    | (release) sched where "base = Op_release sched"
    | (inherited) "G1GCAllocRegion_apply cfg (Op_inherited base) s =
        apply_operation cfg (G1GCAllocRegion_retire_region cfg) base s"
    by blast
  then show ?thesis
  proof cases
    case retire
    with assms(2) Op_inherited show ?thesis
      by (auto simp: and_then_def split: sum.splits intro: G1GCAllocRegion_retire_keeps)
  next
    case release
    with assms(2) Op_inherited have "alloc_region s' = None"
      by (auto simp: G1AllocRegion_release_def and_then_def Let_def split: sum.splits if_splits)
    then show ?thesis by (simp add: active_region_not_empty_def)
  next
    case inherited
    with assms(2) Op_inherited
    have "apply_operation cfg (G1GCAllocRegion_retire_region cfg) base s = Inr s'"
      by simp
    with assms(1) show ?thesis by (rule apply_operation_keeps)
  qed
qed

lemma reachable_invariant:
  assumes step: "\<And>oper s s'. active_region_not_empty cfg s \<Longrightarrow> perform oper s = Inr s'
      \<Longrightarrow> active_region_not_empty cfg s'"
    and "reachable perform s"
  shows "active_region_not_empty cfg s"
  using assms(2)
proof (induction rule: reachable.induct)
  case (constructed s)
  then show ?case by (simp add: active_region_not_empty_def)
next
  case (operation s oper s')
  then show ?case by (auto intro: step)
next
  case (heap s r v)
  then show ?case by (auto simp: active_region_not_empty_def split: option.splits)
qed

lemma reachable_by_three:
  assumes "alloc_region s0 = None" and "count s0 = 0"
    and "perform o1 s0 = Inr s1" and "perform o2 s1 = Inr s2" and "perform o3 s2 = Inr s3"
  shows "reachable perform s3"
  using assms
  by (blast intro: reachable.constructed reachable.operation)

text \<open>
  Claim C1. In every reachable state of a \<^verbatim>\<open>G1AllocRegion\<close>, be it driven by the
  operations of the base class with any \<^verbatim>\<open>retire_region\<close> hook, by those of
  \<^verbatim>\<open>MutatorAllocRegion\<close> or by those of \<^verbatim>\<open>G1GCAllocRegion\<close>, an active region that is not
  the dummy is not empty: it has used bytes. The operations that publish a region,
  \<^verbatim>\<open>set\<close> and \<^verbatim>\<open>new_alloc_region_and_allocate\<close>, go through \<^verbatim>\<open>update_alloc_region\<close>, which
  publishes a region only when it is not empty, and the acquisition path allocates on the
  new region before that; allocation out of the active region only adds to its used bytes;
  retirement and release leave no real region active.
\<close>

theorem active_region_never_empty:
  "(reachable (apply_operation cfg retire_region) s \<longrightarrow> active_region_not_empty cfg s)
   \<and> (reachable (MutatorAllocRegion_apply cfg) m \<longrightarrow> active_region_not_empty cfg m)
   \<and> (reachable (G1GCAllocRegion_apply cfg) g \<longrightarrow> active_region_not_empty cfg g)"
  using reachable_invariant [of cfg "apply_operation cfg retire_region" s]
    reachable_invariant [of cfg "MutatorAllocRegion_apply cfg" m]
    reachable_invariant [of cfg "G1GCAllocRegion_apply cfg" g]
    apply_operation_keeps [of cfg _ retire_region] MutatorAllocRegion_apply_keeps [of cfg]
    G1GCAllocRegion_apply_keeps [of cfg]
  by blast

theorem active_region_never_empty_witness:
  "reachable (apply_operation example_cfg (G1GCAllocRegion_retire_region example_cfg)) example_active
   \<and> reachable (MutatorAllocRegion_apply example_cfg) example_mutator_active
   \<and> reachable (G1GCAllocRegion_apply example_cfg) example_active
   \<and> alloc_region example_active = Some 3 \<and> Some 3 \<noteq> dummy_region example_active
   \<and> alloc_region example_mutator_active = Some 3 \<and> Some 3 \<noteq> dummy_region example_mutator_active
   \<and> active_region_not_empty example_cfg example_active
   \<and> active_region_not_empty example_cfg example_mutator_active
   \<and> map_option (used example_cfg) (regions example_active 3) = Some 16000"
proof -
  let ?rr = "G1GCAllocRegion_retire_region example_cfg"
  let ?acquire = "Op_new_alloc_region_and_allocate (\<lambda>word_size s. Some 3) 2000"
  note defs = example_constructed_def example_active_def example_mutator_constructed_def
    example_mutator_active_def example_defs example_fresh_def
    G1AllocRegion_setup_def G1AllocRegion_init_def MutatorAllocRegion_init_def
    new_alloc_region_and_allocate_def update_alloc_region_def and_then_def region_at_def
    free_def used_def is_empty_region_def reset_pre_dummy_top_def G1HeapRegion_allocate_def
    G1HeapRegion_par_allocate_def store_region_def
  have base: "reachable (apply_operation example_cfg ?rr) example_active"
  proof (rule reachable_by_three)
    show "alloc_region example_constructed = None" "count example_constructed = 0"
      by (simp_all add: example_constructed_def)
    show "apply_operation example_cfg ?rr (Op_setup (Some 0)) example_constructed
        = Inr (example_constructed\<lparr>dummy_region := Some 0\<rparr>)"
      by (simp add: defs)
    show "apply_operation example_cfg ?rr Op_init (example_constructed\<lparr>dummy_region := Some 0\<rparr>)
        = Inr (example_constructed\<lparr>dummy_region := Some 0, alloc_region := Some 0\<rparr>)"
      by (simp add: defs)
    show "apply_operation example_cfg ?rr ?acquire
          (example_constructed\<lparr>dummy_region := Some 0, alloc_region := Some 0\<rparr>)
        = Inr example_active"
      by (simp add: defs)
  qed
  have mutator: "reachable (MutatorAllocRegion_apply example_cfg) example_mutator_active"
  proof (rule reachable_by_three)
    show "alloc_region example_mutator_constructed = None" "count example_mutator_constructed = 0"
      by (simp_all add: example_mutator_constructed_def)
    show "MutatorAllocRegion_apply example_cfg (Op_setup (Some 0)) example_mutator_constructed
        = Inr (example_mutator_constructed\<lparr>dummy_region := Some 0\<rparr>)"
      by (simp add: defs)
    show "MutatorAllocRegion_apply example_cfg Op_init
          (example_mutator_constructed\<lparr>dummy_region := Some 0\<rparr>)
        = Inr (example_mutator_constructed\<lparr>dummy_region := Some 0, alloc_region := Some 0\<rparr>)"
      by (simp add: defs)
    show "MutatorAllocRegion_apply example_cfg ?acquire
          (example_mutator_constructed\<lparr>dummy_region := Some 0, alloc_region := Some 0\<rparr>)
        = Inr example_mutator_active"
      by (simp add: defs)
  qed
  have gc: "reachable (G1GCAllocRegion_apply example_cfg) example_active"
  proof (rule reachable_by_three)
    show "alloc_region example_constructed = None" "count example_constructed = 0"
      by (simp_all add: example_constructed_def)
    show "G1GCAllocRegion_apply example_cfg (Op_inherited (Op_setup (Some 0))) example_constructed
        = Inr (example_constructed\<lparr>dummy_region := Some 0\<rparr>)"
      by (simp add: defs)
    show "G1GCAllocRegion_apply example_cfg (Op_inherited Op_init)
          (example_constructed\<lparr>dummy_region := Some 0\<rparr>)
        = Inr (example_constructed\<lparr>dummy_region := Some 0, alloc_region := Some 0\<rparr>)"
      by (simp add: defs)
    show "G1GCAllocRegion_apply example_cfg (Op_inherited ?acquire)
          (example_constructed\<lparr>dummy_region := Some 0, alloc_region := Some 0\<rparr>)
        = Inr example_active"
      by (simp add: defs)
  qed
  from active_region_never_empty [of example_cfg ?rr example_active example_mutator_active example_active]
    base mutator gc
  show ?thesis
    by (simp add: example_active_def example_mutator_active_def example_defs example_fresh_def used_def)
qed

section \<open>Releasing twice in the subclasses\<close>

text \<open>A second release directly after the first, in the two subclasses.\<close>

lemma G1GCAllocRegion_release_twice:
  assumes "G1AllocRegion_release (G1GCAllocRegion_retire cfg sched) s = Inr (released, s1)"
  shows "G1AllocRegion_release (G1GCAllocRegion_retire cfg sched') s1
           = Inl (Assert ''not initialized properly'')"
proof -
  from assms have "alloc_region s1 = None"
    by (auto simp: G1AllocRegion_release_def and_then_def Let_def split: sum.splits if_splits)
  then show ?thesis
    by (simp add: G1AllocRegion_release_def G1GCAllocRegion_retire_def G1AllocRegion_retire_def
        and_then_def Let_def)
qed

lemma MutatorAllocRegion_release_twice:
  assumes "dummy_region s \<noteq> None"
    and "MutatorAllocRegion_release cfg sched s = Inr (released, s1)"
  shows "MutatorAllocRegion_release cfg sched' s1 = Inl (Assert ''post-condition of retire()'')"
proof -
  from MutatorAllocRegion_release_keeps [OF assms(2)] have null: "alloc_region s1 = None" by simp
  have "dummy_region s1 = dummy_region s"
  proof -
    from assms(2) obtain s0 where
      base: "G1AllocRegion_release (MutatorAllocRegion_retire cfg sched) s = Inr (released, s0)"
      and rest: "(case retained_alloc_region (derived s0) of
            Some q \<Rightarrow>
              and_then (retire_internal (MutatorAllocRegion_retire_region cfg) cfg sched q False s0)
                (\<lambda>(waste, s2).
                  Inr ((add_wasted_bytes waste s2)
                         \<lparr>derived := (derived (add_wasted_bytes waste s2))
                            \<lparr>retained_alloc_region := None\<rparr>\<rparr>))
          | None \<Rightarrow> Inr s0) = Inr s1"
      unfolding MutatorAllocRegion_release_def
      by (auto simp: and_then_def split: sum.splits)
    from base obtain w sr where r: "MutatorAllocRegion_retire cfg sched False s = Inr (w, sr)"
      and s0: "s0 = sr\<lparr>alloc_region := None\<rparr>"
      by (auto simp: G1AllocRegion_release_def and_then_def Let_def split: sum.splits if_splits)
    from MutatorAllocRegion_retire_cases [OF r] have "dummy_region sr = dummy_region s"
      by (auto simp: reset_alloc_region_def dest: mutator_retire_internal_derived)
    with s0 rest show ?thesis
      by (auto simp: and_then_def split: option.splits sum.splits
          dest: mutator_retire_internal_derived)
  qed
  with assms(1) null have get: "G1AllocRegion_get s1 = None" "alloc_region s1 \<noteq> dummy_region s1"
    by (auto simp: G1AllocRegion_get_def)
  have "MutatorAllocRegion_retire cfg sched' False s1 = Inr (0, add_wasted_bytes 0 s1)"
    by (simp add: MutatorAllocRegion_retire_def get and_then_def)
  with get show ?thesis
    by (simp add: MutatorAllocRegion_release_def G1AllocRegion_release_def and_then_def Let_def)
qed

end
